theory Spec2Isabelle
  imports Main
begin

section \<open>Python values\<close>

text \<open>
  The bot of \<^verbatim>\<open>homework.py\<close> handles values decoded from JSON: null, booleans, numbers,
  strings, lists and dictionaries with string keys. A Python \<^verbatim>\<open>str\<close> is modelled by the
  bytes of its UTF-8 encoding: concatenation, equality and substring search of strings
  agree with the same operations on their encodings, and these are the only operations the
  bot applies to text. A float carries its \<^verbatim>\<open>repr\<close> text; no operation of the bot computes
  with one. A dictionary is the list of its items in insertion order, the keys distinct.
\<close>

datatype pyval =
    PNone
  | PBool bool
  | PInt int
  | PFloat string
  | PStr string
  | PList "pyval list"
  | PDict "(string \<times> pyval) list"

text \<open>
  What \<^verbatim>\<open>response.json()\<close> does with the body of a response: it returns the decoded
  value; or the body is not JSON and it raises \<^verbatim>\<open>json.JSONDecodeError\<close>; or the
  decoder raises an exception of another class (\<^verbatim>\<open>RecursionError\<close> on a body nested
  too deeply, \<^verbatim>\<open>ValueError\<close> on an integer literal with too many digits), given here
  by the name of its class and its text.
\<close>

datatype json_outcome =
    Parsed pyval
  | JSONDecodeError
  | Raised string string

text \<open>
  The object \<^verbatim>\<open>requests.get\<close> returns: its status code, and what
  \<^verbatim>\<open>response.json()\<close> does with its body.
\<close>

datatype response = Response (status_code: int) (json: json_outcome)

text \<open>
  What \<^verbatim>\<open>requests.get\<close> does on one call: it raises a \<^verbatim>\<open>requests.RequestException\<close>
  (connection refused, timeout, DNS failure), or it returns a response.
\<close>

datatype http_outcome = RequestException | Returned response

text \<open>
  The value \<^verbatim>\<open>get_api_answer\<close> hands to its caller: decoded JSON, or the response object
  itself.
\<close>

datatype fetched = Decoded pyval | Raw response

text \<open>
  The exceptions of \<^verbatim>\<open>exceptions.py\<close>, the built-in ones the code raises or the
  interpreter raises on its behalf, and an exception of any other class, with the name of
  the class; each carries the text \<^verbatim>\<open>str(error)\<close> is built from.
\<close>

datatype error =
    MissingTokensError string
  | APIRequestError string
  | InvalidAPIResponseError string
  | UnknownHomeworkStatusError string
  | TypeError string
  | KeyError pyval
  | AttributeError string
  | OtherException string string

text \<open>
  The operations on which the interpreter itself raises: hashing a list or a dictionary,
  \<^verbatim>\<open>in\<close> on a value that is no container, a subscript with a string on a string or a
  list, \<^verbatim>\<open>.get\<close> on an object without that attribute.
\<close>

datatype fault =
    Unhashable pyval
  | NotContainer pyval
  | BadSubscript pyval
  | NoAttribute fetched string

text \<open>
  The texts the Python interpreter supplies and the repository does not fix: the
  \<^verbatim>\<open>repr\<close> of a string (quoting and escapes depend on the Unicode database) and
  the message of each exception it raises (they differ between versions).
\<close>

record interp =
  repr_str :: "string \<Rightarrow> string"
  fault_text :: "fault \<Rightarrow> string"

section \<open>Rendering values as text\<close>

text \<open>\<^verbatim>\<open>sep.join(xs)\<close>.\<close>

fun join :: "string \<Rightarrow> string list \<Rightarrow> string" where
  "join sep [] = []"
| "join sep [x] = x"
| "join sep (x # y # ys) = x @ sep @ join sep (y # ys)"

text \<open>The decimal digits of a natural number, as \<^verbatim>\<open>repr\<close> prints an \<^verbatim>\<open>int\<close>.\<close>

fun dec_nat :: "nat \<Rightarrow> string" where
  "dec_nat n =
     (if n < 10 then [''0123456789'' ! n]
      else dec_nat (n div 10) @ [''0123456789'' ! (n mod 10)])"

declare dec_nat.simps [simp del]

text \<open>\<^verbatim>\<open>repr(v)\<close> for a decoded JSON value.\<close>

fun py_repr :: "interp \<Rightarrow> pyval \<Rightarrow> string" where
  "py_repr rt PNone = ''None''"
| "py_repr rt (PBool b) = (if b then ''True'' else ''False'')"
| "py_repr rt (PInt i) = (if i < 0 then ''-'' @ dec_nat (nat (- i)) else dec_nat (nat i))"
| "py_repr rt (PFloat r) = r"
| "py_repr rt (PStr s) = repr_str rt s"
| "py_repr rt (PList xs) = ''['' @ join '', '' (map (py_repr rt) xs) @ '']''"
| "py_repr rt (PDict d) =
     ''{'' @ join '', '' (map (\<lambda>(k, v). repr_str rt k @ '': '' @ py_repr rt v) d) @ ''}''"

text \<open>
  \<^verbatim>\<open>str(v)\<close>, which an f-string applies to a value it embeds: a string is embedded as
  it is, every other JSON value by its \<^verbatim>\<open>repr\<close>.
\<close>

definition py_str :: "interp \<Rightarrow> pyval \<Rightarrow> string" where
  "py_str rt v = (case v of PStr s \<Rightarrow> s | _ \<Rightarrow> py_repr rt v)"

text \<open>\<^verbatim>\<open>str(error)\<close>; for a \<^verbatim>\<open>KeyError\<close> it is the \<^verbatim>\<open>repr\<close> of the key.\<close>

fun error_text :: "interp \<Rightarrow> error \<Rightarrow> string" where
  "error_text rt (MissingTokensError m) = m"
| "error_text rt (APIRequestError m) = m"
| "error_text rt (InvalidAPIResponseError m) = m"
| "error_text rt (UnknownHomeworkStatusError m) = m"
| "error_text rt (TypeError m) = m"
| "error_text rt (KeyError k) = py_repr rt k"
| "error_text rt (AttributeError m) = m"
| "error_text rt (OtherException cls m) = m"

section \<open>Module constants\<close>

definition RETRY_PERIOD :: nat where
  "RETRY_PERIOD = 600"

definition ENDPOINT :: string where
  "ENDPOINT = ''https://practicum.yandex.ru/api/user_api/homework_statuses/''"

definition TEXT :: string where
  "TEXT = ''Hi, practicum''"

text \<open>
  The Russian string literals of the module, each as the bytes of its UTF-8 encoding, with
  the line of \<^verbatim>\<open>homework.py\<close> it stands on and an English gloss.
\<close>

definition verdict_approved :: string where
  \<comment> \<open>line 34: the work is checked and approved\<close>
  "verdict_approved =
     [CHR 0xD0, CHR 0xA0, CHR 0xD0, CHR 0xB0, CHR 0xD0, CHR 0xB1, CHR 0xD0, CHR 0xBE,
      CHR 0xD1, CHR 0x82, CHR 0xD0, CHR 0xB0, CHR 0x20, CHR 0xD0, CHR 0xBF, CHR 0xD1,
      CHR 0x80, CHR 0xD0, CHR 0xBE, CHR 0xD0, CHR 0xB2, CHR 0xD0, CHR 0xB5, CHR 0xD1,
      CHR 0x80, CHR 0xD0, CHR 0xB5, CHR 0xD0, CHR 0xBD, CHR 0xD0, CHR 0xB0, CHR '':'',
      CHR 0x20, CHR 0xD1, CHR 0x80, CHR 0xD0, CHR 0xB5, CHR 0xD0, CHR 0xB2, CHR 0xD1,
      CHR 0x8C, CHR 0xD1, CHR 0x8E, CHR 0xD0, CHR 0xB5, CHR 0xD1, CHR 0x80, CHR 0xD1,
      CHR 0x83, CHR 0x20, CHR 0xD0, CHR 0xB2, CHR 0xD1, CHR 0x81, CHR 0xD1, CHR 0x91,
      CHR 0x20, CHR 0xD0, CHR 0xBF, CHR 0xD0, CHR 0xBE, CHR 0xD0, CHR 0xBD, CHR 0xD1,
      CHR 0x80, CHR 0xD0, CHR 0xB0, CHR 0xD0, CHR 0xB2, CHR 0xD0, CHR 0xB8, CHR 0xD0,
      CHR 0xBB, CHR 0xD0, CHR 0xBE, CHR 0xD1, CHR 0x81, CHR 0xD1, CHR 0x8C, CHR ''.'',
      CHR 0x20, CHR 0xD0, CHR 0xA3, CHR 0xD1, CHR 0x80, CHR 0xD0, CHR 0xB0, CHR ''!'']"

definition verdict_reviewing :: string where
  \<comment> \<open>line 35: the work has been taken for checking\<close>
  "verdict_reviewing =
     [CHR 0xD0, CHR 0xA0, CHR 0xD0, CHR 0xB0, CHR 0xD0, CHR 0xB1, CHR 0xD0, CHR 0xBE,
      CHR 0xD1, CHR 0x82, CHR 0xD0, CHR 0xB0, CHR 0x20, CHR 0xD0, CHR 0xB2, CHR 0xD0,
      CHR 0xB7, CHR 0xD1, CHR 0x8F, CHR 0xD1, CHR 0x82, CHR 0xD0, CHR 0xB0, CHR 0x20,
      CHR 0xD0, CHR 0xBD, CHR 0xD0, CHR 0xB0, CHR 0x20, CHR 0xD0, CHR 0xBF, CHR 0xD1,
      CHR 0x80, CHR 0xD0, CHR 0xBE, CHR 0xD0, CHR 0xB2, CHR 0xD0, CHR 0xB5, CHR 0xD1,
      CHR 0x80, CHR 0xD0, CHR 0xBA, CHR 0xD1, CHR 0x83, CHR 0x20, CHR 0xD1, CHR 0x80,
      CHR 0xD0, CHR 0xB5, CHR 0xD0, CHR 0xB2, CHR 0xD1, CHR 0x8C, CHR 0xD1, CHR 0x8E,
      CHR 0xD0, CHR 0xB5, CHR 0xD1, CHR 0x80, CHR 0xD0, CHR 0xBE, CHR 0xD0, CHR 0xBC,
      CHR ''.'']"

definition verdict_rejected :: string where
  \<comment> \<open>line 36: the work is checked and has remarks\<close>
  "verdict_rejected =
     [CHR 0xD0, CHR 0xA0, CHR 0xD0, CHR 0xB0, CHR 0xD0, CHR 0xB1, CHR 0xD0, CHR 0xBE,
      CHR 0xD1, CHR 0x82, CHR 0xD0, CHR 0xB0, CHR 0x20, CHR 0xD0, CHR 0xBF, CHR 0xD1,
      CHR 0x80, CHR 0xD0, CHR 0xBE, CHR 0xD0, CHR 0xB2, CHR 0xD0, CHR 0xB5, CHR 0xD1,
      CHR 0x80, CHR 0xD0, CHR 0xB5, CHR 0xD0, CHR 0xBD, CHR 0xD0, CHR 0xB0, CHR '':'',
      CHR 0x20, CHR 0xD1, CHR 0x83, CHR 0x20, CHR 0xD1, CHR 0x80, CHR 0xD0, CHR 0xB5,
      CHR 0xD0, CHR 0xB2, CHR 0xD1, CHR 0x8C, CHR 0xD1, CHR 0x8E, CHR 0xD0, CHR 0xB5,
      CHR 0xD1, CHR 0x80, CHR 0xD0, CHR 0xB0, CHR 0x20, CHR 0xD0, CHR 0xB5, CHR 0xD1,
      CHR 0x81, CHR 0xD1, CHR 0x82, CHR 0xD1, CHR 0x8C, CHR 0x20, CHR 0xD0, CHR 0xB7,
      CHR 0xD0, CHR 0xB0, CHR 0xD0, CHR 0xBC, CHR 0xD0, CHR 0xB5, CHR 0xD1, CHR 0x87,
      CHR 0xD0, CHR 0xB0, CHR 0xD0, CHR 0xBD, CHR 0xD0, CHR 0xB8, CHR 0xD1, CHR 0x8F,
      CHR ''.'']"

definition msg_missing_env :: string where
  \<comment> \<open>line 57: 'a required environment variable is missing: '\<close>
  "msg_missing_env =
     [CHR 0xD0, CHR 0x9E, CHR 0xD1, CHR 0x82, CHR 0xD1, CHR 0x81, CHR 0xD1, CHR 0x83,
      CHR 0xD1, CHR 0x82, CHR 0xD1, CHR 0x81, CHR 0xD1, CHR 0x82, CHR 0xD0, CHR 0xB2,
      CHR 0xD1, CHR 0x83, CHR 0xD0, CHR 0xB5, CHR 0xD1, CHR 0x82, CHR 0x20, CHR 0xD0,
      CHR 0xBE, CHR 0xD0, CHR 0xB1, CHR 0xD1, CHR 0x8F, CHR 0xD0, CHR 0xB7, CHR 0xD0,
      CHR 0xB0, CHR 0xD1, CHR 0x82, CHR 0xD0, CHR 0xB5, CHR 0xD0, CHR 0xBB, CHR 0xD1,
      CHR 0x8C, CHR 0xD0, CHR 0xBD, CHR 0xD0, CHR 0xB0, CHR 0xD1, CHR 0x8F, CHR 0x20,
      CHR 0xD0, CHR 0xBF, CHR 0xD0, CHR 0xB5, CHR 0xD1, CHR 0x80, CHR 0xD0, CHR 0xB5,
      CHR 0xD0, CHR 0xBC, CHR 0xD0, CHR 0xB5, CHR 0xD0, CHR 0xBD, CHR 0xD0, CHR 0xBD,
      CHR 0xD0, CHR 0xB0, CHR 0xD1, CHR 0x8F, CHR 0x20, CHR 0xD0, CHR 0xBE, CHR 0xD0,
      CHR 0xBA, CHR 0xD1, CHR 0x80, CHR 0xD1, CHR 0x83, CHR 0xD0, CHR 0xB6, CHR 0xD0,
      CHR 0xB5, CHR 0xD0, CHR 0xBD, CHR 0xD0, CHR 0xB8, CHR 0xD1, CHR 0x8F, CHR '':'',
      CHR 0x20]"

definition msg_request_error :: string where
  \<comment> \<open>line 83: 'request error to '\<close>
  "msg_request_error =
     [CHR 0xD0, CHR 0x9E, CHR 0xD1, CHR 0x88, CHR 0xD0, CHR 0xB8, CHR 0xD0, CHR 0xB1,
      CHR 0xD0, CHR 0xBA, CHR 0xD0, CHR 0xB0, CHR 0x20, CHR 0xD0, CHR 0xB7, CHR 0xD0,
      CHR 0xB0, CHR 0xD0, CHR 0xBF, CHR 0xD1, CHR 0x80, CHR 0xD0, CHR 0xBE, CHR 0xD1,
      CHR 0x81, CHR 0xD0, CHR 0xB0, CHR 0x20, CHR 0xD0, CHR 0xBA, CHR 0x20]"

definition msg_endpoint :: string where
  \<comment> \<open>line 91: 'endpoint - '\<close>
  "msg_endpoint =
     [CHR 0xD0, CHR 0xAD, CHR 0xD0, CHR 0xBD, CHR 0xD0, CHR 0xB4, CHR 0xD0, CHR 0xBF,
      CHR 0xD0, CHR 0xBE, CHR 0xD0, CHR 0xB8, CHR 0xD0, CHR 0xBD, CHR 0xD1, CHR 0x82,
      CHR 0x20, CHR ''-'', CHR 0x20]"

definition msg_unavailable :: string where
  \<comment> \<open>line 91: ' is unavailable.'\<close>
  "msg_unavailable =
     [CHR 0x20, CHR 0xD0, CHR 0xBD, CHR 0xD0, CHR 0xB5, CHR 0xD0, CHR 0xB4, CHR 0xD0,
      CHR 0xBE, CHR 0xD1, CHR 0x81, CHR 0xD1, CHR 0x82, CHR 0xD1, CHR 0x83, CHR 0xD0,
      CHR 0xBF, CHR 0xD0, CHR 0xB5, CHR 0xD0, CHR 0xBD, CHR ''.'']"

definition msg_not_dict :: string where
  \<comment> \<open>line 107: 'the response is not a dictionary.'\<close>
  "msg_not_dict =
     [CHR 0xD0, CHR 0x9E, CHR 0xD1, CHR 0x82, CHR 0xD0, CHR 0xB2, CHR 0xD0, CHR 0xB5,
      CHR 0xD1, CHR 0x82, CHR 0x20, CHR 0xD0, CHR 0xBD, CHR 0xD0, CHR 0xB5, CHR 0x20,
      CHR 0xD1, CHR 0x8F, CHR 0xD0, CHR 0xB2, CHR 0xD0, CHR 0xBB, CHR 0xD1, CHR 0x8F,
      CHR 0xD0, CHR 0xB5, CHR 0xD1, CHR 0x82, CHR 0xD1, CHR 0x81, CHR 0xD1, CHR 0x8F,
      CHR 0x20, CHR 0xD1, CHR 0x81, CHR 0xD0, CHR 0xBB, CHR 0xD0, CHR 0xBE, CHR 0xD0,
      CHR 0xB2, CHR 0xD0, CHR 0xB0, CHR 0xD1, CHR 0x80, CHR 0xD0, CHR 0xB5, CHR 0xD0,
      CHR 0xBC, CHR ''.'']"

definition msg_no_homeworks_key :: string where
  \<comment> \<open>line 110: 'the expected key ''homeworks'' is absent from the API response.'\<close>
  "msg_no_homeworks_key =
     [CHR 0xD0, CHR 0x9E, CHR 0xD1, CHR 0x82, CHR 0xD1, CHR 0x81, CHR 0xD1, CHR 0x83,
      CHR 0xD1, CHR 0x82, CHR 0xD1, CHR 0x81, CHR 0xD1, CHR 0x82, CHR 0xD0, CHR 0xB2,
      CHR 0xD1, CHR 0x83, CHR 0xD0, CHR 0xB5, CHR 0xD1, CHR 0x82, CHR 0x20, CHR 0xD0,
      CHR 0xBE, CHR 0xD0, CHR 0xB6, CHR 0xD0, CHR 0xB8, CHR 0xD0, CHR 0xB4, CHR 0xD0,
      CHR 0xB0, CHR 0xD0, CHR 0xB5, CHR 0xD0, CHR 0xBC, CHR 0xD1, CHR 0x8B, CHR 0xD0,
      CHR 0xB9, CHR 0x20, CHR 0xD0, CHR 0xBA, CHR 0xD0, CHR 0xBB, CHR 0xD1, CHR 0x8E,
      CHR 0xD1, CHR 0x87, CHR 0x20, CHR 0x22, CHR ''h'', CHR ''o'', CHR ''m'',
      CHR ''e'', CHR ''w'', CHR ''o'', CHR ''r'', CHR ''k'', CHR ''s'', CHR 0x22,
      CHR 0x20, CHR 0xD0, CHR 0xB2, CHR 0x20, CHR 0xD0, CHR 0xBE, CHR 0xD1, CHR 0x82,
      CHR 0xD0, CHR 0xB2, CHR 0xD0, CHR 0xB5, CHR 0xD1, CHR 0x82, CHR 0xD0, CHR 0xB5,
      CHR 0x20, CHR ''A'', CHR ''P'', CHR ''I'', CHR ''.'']"

definition msg_no_current_date_key :: string where
  \<comment> \<open>line 114: 'the expected key ''current_date'' is absent from the API response.'\<close>
  "msg_no_current_date_key =
     [CHR 0xD0, CHR 0x9E, CHR 0xD1, CHR 0x82, CHR 0xD1, CHR 0x81, CHR 0xD1, CHR 0x83,
      CHR 0xD1, CHR 0x82, CHR 0xD1, CHR 0x81, CHR 0xD1, CHR 0x82, CHR 0xD0, CHR 0xB2,
      CHR 0xD1, CHR 0x83, CHR 0xD0, CHR 0xB5, CHR 0xD1, CHR 0x82, CHR 0x20, CHR 0xD0,
      CHR 0xBE, CHR 0xD0, CHR 0xB6, CHR 0xD0, CHR 0xB8, CHR 0xD0, CHR 0xB4, CHR 0xD0,
      CHR 0xB0, CHR 0xD0, CHR 0xB5, CHR 0xD0, CHR 0xBC, CHR 0xD1, CHR 0x8B, CHR 0xD0,
      CHR 0xB9, CHR 0x20, CHR 0xD0, CHR 0xBA, CHR 0xD0, CHR 0xBB, CHR 0xD1, CHR 0x8E,
      CHR 0xD1, CHR 0x87, CHR 0x20, CHR 0x22, CHR ''c'', CHR ''u'', CHR ''r'',
      CHR ''r'', CHR ''e'', CHR ''n'', CHR ''t'', CHR 0x5F, CHR ''d'', CHR ''a'',
      CHR ''t'', CHR ''e'', CHR 0x22, CHR 0x20, CHR 0xD0, CHR 0xB2, CHR 0x20, CHR 0xD0,
      CHR 0xBE, CHR 0xD1, CHR 0x82, CHR 0xD0, CHR 0xB2, CHR 0xD0, CHR 0xB5, CHR 0xD1,
      CHR 0x82, CHR 0xD0, CHR 0xB5, CHR 0x20, CHR ''A'', CHR ''P'', CHR ''I'',
      CHR ''.'']"

definition msg_homeworks_not_list :: string where
  \<comment> \<open>line 118: 'the value of the key homeworks is not a list.'\<close>
  "msg_homeworks_not_list =
     [CHR 0xD0, CHR 0x97, CHR 0xD0, CHR 0xBD, CHR 0xD0, CHR 0xB0, CHR 0xD1, CHR 0x87,
      CHR 0xD0, CHR 0xB5, CHR 0xD0, CHR 0xBD, CHR 0xD0, CHR 0xB8, CHR 0xD0, CHR 0xB5,
      CHR 0x20, CHR 0xD0, CHR 0xBA, CHR 0xD0, CHR 0xBB, CHR 0xD1, CHR 0x8E, CHR 0xD1,
      CHR 0x87, CHR 0xD0, CHR 0xB0, CHR 0x20, CHR ''h'', CHR ''o'', CHR ''m'',
      CHR ''e'', CHR ''w'', CHR ''o'', CHR ''r'', CHR ''k'', CHR ''s'', CHR 0x20,
      CHR 0xD0, CHR 0xBD, CHR 0xD0, CHR 0xB5, CHR 0x20, CHR 0xD1, CHR 0x8F, CHR 0xD0,
      CHR 0xB2, CHR 0xD0, CHR 0xBB, CHR 0xD1, CHR 0x8F, CHR 0xD0, CHR 0xB5, CHR 0xD1,
      CHR 0x82, CHR 0xD1, CHR 0x81, CHR 0xD1, CHR 0x8F, CHR 0x20, CHR 0xD1, CHR 0x81,
      CHR 0xD0, CHR 0xBF, CHR 0xD0, CHR 0xB8, CHR 0xD1, CHR 0x81, CHR 0xD0, CHR 0xBA,
      CHR 0xD0, CHR 0xBE, CHR 0xD0, CHR 0xBC, CHR ''.'']"

definition msg_missing_keys :: string where
  \<comment> \<open>line 130: 'the keys homework_name or status are absent from the API response'\<close>
  "msg_missing_keys =
     [CHR 0xD0, CHR 0x9E, CHR 0xD1, CHR 0x82, CHR 0xD1, CHR 0x81, CHR 0xD1, CHR 0x83,
      CHR 0xD1, CHR 0x82, CHR 0xD1, CHR 0x81, CHR 0xD1, CHR 0x82, CHR 0xD0, CHR 0xB2,
      CHR 0xD1, CHR 0x83, CHR 0xD1, CHR 0x8E, CHR 0xD1, CHR 0x82, CHR 0x20, CHR 0xD0,
      CHR 0xBA, CHR 0xD0, CHR 0xBB, CHR 0xD1, CHR 0x8E, CHR 0xD1, CHR 0x87, CHR 0xD0,
      CHR 0xB8, CHR 0x20, CHR ''h'', CHR ''o'', CHR ''m'', CHR ''e'', CHR ''w'',
      CHR ''o'', CHR ''r'', CHR ''k'', CHR 0x5F, CHR ''n'', CHR ''a'', CHR ''m'',
      CHR ''e'', CHR 0x20, CHR 0xD0, CHR 0xB8, CHR 0xD0, CHR 0xBB, CHR 0xD0, CHR 0xB8,
      CHR 0x20, CHR ''s'', CHR ''t'', CHR ''a'', CHR ''t'', CHR ''u'', CHR ''s'',
      CHR 0x20, CHR 0xD0, CHR 0xB2, CHR 0x20, CHR 0xD0, CHR 0xBE, CHR 0xD1, CHR 0x82,
      CHR 0xD0, CHR 0xB2, CHR 0xD0, CHR 0xB5, CHR 0xD1, CHR 0x82, CHR 0xD0, CHR 0xB5,
      CHR 0x20, CHR ''A'', CHR ''P'', CHR ''I'']"

definition msg_unknown_status :: string where
  \<comment> \<open>line 138: 'unknown homework status: '\<close>
  "msg_unknown_status =
     [CHR 0xD0, CHR 0x9D, CHR 0xD0, CHR 0xB5, CHR 0xD0, CHR 0xB8, CHR 0xD0, CHR 0xB7,
      CHR 0xD0, CHR 0xB2, CHR 0xD0, CHR 0xB5, CHR 0xD1, CHR 0x81, CHR 0xD1, CHR 0x82,
      CHR 0xD0, CHR 0xBD, CHR 0xD1, CHR 0x8B, CHR 0xD0, CHR 0xB9, CHR 0x20, CHR 0xD1,
      CHR 0x81, CHR 0xD1, CHR 0x82, CHR 0xD0, CHR 0xB0, CHR 0xD1, CHR 0x82, CHR 0xD1,
      CHR 0x83, CHR 0xD1, CHR 0x81, CHR 0x20, CHR 0xD0, CHR 0xB4, CHR 0xD0, CHR 0xBE,
      CHR 0xD0, CHR 0xBC, CHR 0xD0, CHR 0xB0, CHR 0xD1, CHR 0x88, CHR 0xD0, CHR 0xBD,
      CHR 0xD0, CHR 0xB5, CHR 0xD0, CHR 0xB9, CHR 0x20, CHR 0xD1, CHR 0x80, CHR 0xD0,
      CHR 0xB0, CHR 0xD0, CHR 0xB1, CHR 0xD0, CHR 0xBE, CHR 0xD1, CHR 0x82, CHR 0xD1,
      CHR 0x8B, CHR '':'', CHR 0x20]"

definition msg_status_changed :: string where
  \<comment> \<open>line 141: 'the review status of the work has changed '''\<close>
  "msg_status_changed =
     [CHR 0xD0, CHR 0x98, CHR 0xD0, CHR 0xB7, CHR 0xD0, CHR 0xBC, CHR 0xD0, CHR 0xB5,
      CHR 0xD0, CHR 0xBD, CHR 0xD0, CHR 0xB8, CHR 0xD0, CHR 0xBB, CHR 0xD1, CHR 0x81,
      CHR 0xD1, CHR 0x8F, CHR 0x20, CHR 0xD1, CHR 0x81, CHR 0xD1, CHR 0x82, CHR 0xD0,
      CHR 0xB0, CHR 0xD1, CHR 0x82, CHR 0xD1, CHR 0x83, CHR 0xD1, CHR 0x81, CHR 0x20,
      CHR 0xD0, CHR 0xBF, CHR 0xD1, CHR 0x80, CHR 0xD0, CHR 0xBE, CHR 0xD0, CHR 0xB2,
      CHR 0xD0, CHR 0xB5, CHR 0xD1, CHR 0x80, CHR 0xD0, CHR 0xBA, CHR 0xD0, CHR 0xB8,
      CHR 0x20, CHR 0xD1, CHR 0x80, CHR 0xD0, CHR 0xB0, CHR 0xD0, CHR 0xB1, CHR 0xD0,
      CHR 0xBE, CHR 0xD1, CHR 0x82, CHR 0xD1, CHR 0x8B, CHR 0x20, CHR 0x22]"

definition msg_failure :: string where
  \<comment> \<open>line 170: 'failure in the program: '\<close>
  "msg_failure =
     [CHR 0xD0, CHR 0xA1, CHR 0xD0, CHR 0xB1, CHR 0xD0, CHR 0xBE, CHR 0xD0, CHR 0xB9,
      CHR 0x20, CHR 0xD0, CHR 0xB2, CHR 0x20, CHR 0xD1, CHR 0x80, CHR 0xD0, CHR 0xB0,
      CHR 0xD0, CHR 0xB1, CHR 0xD0, CHR 0xBE, CHR 0xD1, CHR 0x82, CHR 0xD0, CHR 0xB5,
      CHR 0x20, CHR 0xD0, CHR 0xBF, CHR 0xD1, CHR 0x80, CHR 0xD0, CHR 0xBE, CHR 0xD0,
      CHR 0xB3, CHR 0xD1, CHR 0x80, CHR 0xD0, CHR 0xB0, CHR 0xD0, CHR 0xBC, CHR 0xD0,
      CHR 0xBC, CHR 0xD1, CHR 0x8B, CHR '':'', CHR 0x20]"

definition HOMEWORK_VERDICTS :: "(string \<times> string) list" where
  "HOMEWORK_VERDICTS =
     [(''approved'', verdict_approved),
      (''reviewing'', verdict_reviewing),
      (''rejected'', verdict_rejected)]"

section \<open>Configuration: \<^verbatim>\<open>check_tokens\<close>\<close>

text \<open>
  The three module globals read with \<^verbatim>\<open>os.getenv\<close>: each is a string, or \<open>None\<close>
  when the variable is not set.
\<close>

record config =
  PRACTICUM_TOKEN :: "string option"
  TELEGRAM_TOKEN :: "string option"
  TELEGRAM_CHAT_ID :: "string option"

text \<open>\<^verbatim>\<open>globals()[name]\<close> for the three names \<^verbatim>\<open>check_tokens\<close> looks up.\<close>

definition global_value :: "config \<Rightarrow> string \<Rightarrow> string option" where
  "global_value cfg name =
     (if name = ''PRACTICUM_TOKEN'' then PRACTICUM_TOKEN cfg
      else if name = ''TELEGRAM_TOKEN'' then TELEGRAM_TOKEN cfg
      else if name = ''TELEGRAM_CHAT_ID'' then TELEGRAM_CHAT_ID cfg
      else None)"

text \<open>\<^verbatim>\<open>not v\<close> for a value that is \<open>None\<close> or a string: both \<open>None\<close> and the empty string are false.\<close>

definition py_not :: "string option \<Rightarrow> bool" where
  "py_not v = (v = None \<or> v = Some [])"

definition tokens :: "string list" where
  "tokens = [''PRACTICUM_TOKEN'', ''TELEGRAM_TOKEN'', ''TELEGRAM_CHAT_ID'']"

definition check_tokens :: "config \<Rightarrow> error + unit" where
  "check_tokens cfg =
     (let missing_tokens = filter (\<lambda>name. py_not (global_value cfg name)) tokens in
      if missing_tokens \<noteq> [] then
        (let missing_tokens_message = join '', '' missing_tokens;
             message = msg_missing_env @ missing_tokens_message @ ''.''
         in Inl (MissingTokensError message))
      else Inr ())"

section \<open>The notifier: \<^verbatim>\<open>send_message\<close>\<close>

text \<open>
  The state of a run: the two locals of \<^verbatim>\<open>main\<close> that the loop mutates, and the calls
  of \<^verbatim>\<open>bot.send_message\<close> made so far, each with its text and with whether the call
  returned (\<open>True\<close>) or raised (\<open>False\<close>).
\<close>

record bot_state =
  timestamp :: pyval
  last_error_message :: "string option"
  outbox :: "(string \<times> bool) list"

text \<open>
  \<^verbatim>\<open>send_message\<close> calls the bot and catches every \<^verbatim>\<open>Exception\<close> of the call: it
  returns normally whether or not the message was delivered.
\<close>

definition send_message :: "bool \<Rightarrow> string \<Rightarrow> bot_state \<Rightarrow> bot_state" where
  "send_message delivered message st = st\<lparr>outbox := outbox st @ [(message, delivered)]\<rparr>"

section \<open>The fetcher: \<^verbatim>\<open>get_api_answer\<close>\<close>

text \<open>
  The handler of \<^verbatim>\<open>json.JSONDecodeError\<close> only logs, and the function then returns the
  variable \<^verbatim>\<open>response\<close>, which still holds the response object. The handler
  catches no other class, so any other exception of \<^verbatim>\<open>response.json()\<close> leaves
  the function as it is.
\<close>

definition get_api_answer :: "interp \<Rightarrow> pyval \<Rightarrow> http_outcome \<Rightarrow> error + fetched" where
  "get_api_answer rt ts outcome =
     (let params = PDict [(''from_date'', ts)] in
      case outcome of
        RequestException \<Rightarrow>
          Inl (APIRequestError
            (msg_request_error @ ENDPOINT @ '' c params='' @ py_str rt params @ ''.''))
      | Returned response \<Rightarrow>
          if status_code response \<noteq> 200 then
            Inl (APIRequestError (msg_endpoint @ ENDPOINT @ msg_unavailable))
          else
            (case json response of
               Parsed decoded \<Rightarrow> Inr (Decoded decoded)
             | JSONDecodeError \<Rightarrow> Inr (Raw response)
             | Raised cls text \<Rightarrow> Inl (OtherException cls text)))"

section \<open>The validator: \<^verbatim>\<open>check_response\<close>\<close>

text \<open>\<^verbatim>\<open>key in d\<close> and \<^verbatim>\<open>d.get(key, default)\<close> on a dictionary.\<close>

definition has_key :: "(string \<times> pyval) list \<Rightarrow> string \<Rightarrow> bool" where
  "has_key d k = (k \<in> set (map fst d))"

definition dict_get :: "(string \<times> pyval) list \<Rightarrow> string \<Rightarrow> pyval \<Rightarrow> pyval" where
  "dict_get d k dflt = (case map_of d k of Some v \<Rightarrow> v | None \<Rightarrow> dflt)"

fun check_response :: "fetched \<Rightarrow> error + pyval list" where
  "check_response (Decoded (PDict d)) =
     (if \<not> has_key d ''homeworks'' then
        Inl (InvalidAPIResponseError msg_no_homeworks_key)
      else if \<not> has_key d ''current_date'' then
        Inl (InvalidAPIResponseError msg_no_current_date_key)
      else
        (case dict_get d ''homeworks'' PNone of
           PList homeworks \<Rightarrow> Inr homeworks
         | _ \<Rightarrow> Inl (TypeError msg_homeworks_not_list)))"
| "check_response _ = Inl (TypeError msg_not_dict)"

section \<open>The translator: \<^verbatim>\<open>parse_status\<close>\<close>

text \<open>\<^verbatim>\<open>needle in haystack\<close> on two strings: the substring test.\<close>

fun is_substr :: "string \<Rightarrow> string \<Rightarrow> bool" where
  "is_substr needle [] = (needle = [])"
| "is_substr needle (c # cs) =
     (take (length needle) (c # cs) = needle \<or> is_substr needle cs)"

text \<open>
  \<^verbatim>\<open>key in homework\<close> for a string \<open>key\<close>: key membership in a dictionary, element
  membership in a list, the substring test in a string; on any other value the
  interpreter raises \<^verbatim>\<open>TypeError\<close>.
\<close>

fun py_contains :: "interp \<Rightarrow> pyval \<Rightarrow> string \<Rightarrow> error + bool" where
  "py_contains rt (PDict d) key = Inr (has_key d key)"
| "py_contains rt (PList xs) key = Inr (PStr key \<in> set xs)"
| "py_contains rt (PStr s) key = Inr (is_substr key s)"
| "py_contains rt v key = Inl (TypeError (fault_text rt (NotContainer v)))"

text \<open>
  \<^verbatim>\<open>homework[key]\<close> for a string \<open>key\<close>: the value in a dictionary (\<^verbatim>\<open>KeyError\<close> when
  the key is absent), \<^verbatim>\<open>TypeError\<close> on every other value.
\<close>

fun py_subscript :: "interp \<Rightarrow> pyval \<Rightarrow> string \<Rightarrow> error + pyval" where
  "py_subscript rt (PDict d) key =
     (case map_of d key of Some v \<Rightarrow> Inr v | None \<Rightarrow> Inl (KeyError (PStr key)))"
| "py_subscript rt v key = Inl (TypeError (fault_text rt (BadSubscript v)))"

text \<open>A list or a dictionary is not hashable; every other JSON value is.\<close>

fun hashable :: "pyval \<Rightarrow> bool" where
  "hashable (PList xs) = False"
| "hashable (PDict d) = False"
| "hashable v = True"

text \<open>
  \<^verbatim>\<open>homework_status in HOMEWORK_VERDICTS\<close>: the lookup hashes the value first, and
  raises \<^verbatim>\<open>TypeError\<close> when it is not hashable; a hashable value is a key of the table
  only when it is one of the three strings.
\<close>

definition in_verdicts :: "interp \<Rightarrow> pyval \<Rightarrow> error + bool" where
  "in_verdicts rt v =
     (if \<not> hashable v then Inl (TypeError (fault_text rt (Unhashable v)))
      else Inr (case v of PStr s \<Rightarrow> s \<in> set (map fst HOMEWORK_VERDICTS) | _ \<Rightarrow> False))"

text \<open>
  \<^verbatim>\<open>HOMEWORK_VERDICTS[homework_status]\<close>: the value of the table at a key of it; the
  subscript hashes as the membership test does, and raises \<^verbatim>\<open>KeyError\<close> for a hashable
  value that is no key.
\<close>

definition verdict_of :: "interp \<Rightarrow> pyval \<Rightarrow> error + string" where
  "verdict_of rt v =
     (if \<not> hashable v then Inl (TypeError (fault_text rt (Unhashable v)))
      else
        (case v of
           PStr s \<Rightarrow>
             (case map_of HOMEWORK_VERDICTS s of
                Some verdict \<Rightarrow> Inr verdict
              | None \<Rightarrow> Inl (KeyError v))
         | _ \<Rightarrow> Inl (KeyError v)))"

definition parse_status :: "interp \<Rightarrow> pyval \<Rightarrow> error + string" where
  "parse_status rt homework =
     (case py_contains rt homework ''homework_name'' of
        Inl e \<Rightarrow> Inl e
      | Inr has_name \<Rightarrow>
     if \<not> has_name then Inl (InvalidAPIResponseError msg_missing_keys) else
     (case py_contains rt homework ''status'' of
        Inl e \<Rightarrow> Inl e
      | Inr has_status \<Rightarrow>
     if \<not> has_status then Inl (InvalidAPIResponseError msg_missing_keys) else
     (case py_subscript rt homework ''homework_name'' of
        Inl e \<Rightarrow> Inl e
      | Inr homework_name \<Rightarrow>
     (case py_subscript rt homework ''status'' of
        Inl e \<Rightarrow> Inl e
      | Inr homework_status \<Rightarrow>
     (case in_verdicts rt homework_status of
        Inl e \<Rightarrow> Inl e
      | Inr known \<Rightarrow>
     if \<not> known then
       Inl (UnknownHomeworkStatusError (msg_unknown_status @ py_str rt homework_status))
     else
     (case verdict_of rt homework_status of
        Inl e \<Rightarrow> Inl e
      | Inr verdict \<Rightarrow>
     Inr (msg_status_changed @ py_str rt homework_name @ [CHR 0x22] @ ''. '' @ verdict)))))))"

section \<open>The poll loop: \<^verbatim>\<open>main\<close>\<close>

text \<open>
  \<^verbatim>\<open>response.get("current_date", timestamp)\<close>: the dictionary method on a decoded
  dictionary, \<^verbatim>\<open>AttributeError\<close> on a value without the method.
\<close>

fun response_get :: "interp \<Rightarrow> fetched \<Rightarrow> string \<Rightarrow> pyval \<Rightarrow> error + pyval" where
  "response_get rt (Decoded (PDict d)) key dflt = Inr (dict_get d key dflt)"
| "response_get rt r key dflt = Inl (AttributeError (fault_text rt (NoAttribute r key)))"

text \<open>
  One run of the \<^verbatim>\<open>try\<close> suite of the loop body, on what the network does in this
  iteration (\<open>outcome\<close>) and on whether a call of the bot in this iteration returns
  (\<open>delivered\<close>). The result is the state at the end of the suite, or the exception raised
  with the state at that point. The suite logs when \<^verbatim>\<open>response\<close> is false and goes on;
  logging is not part of the state.
\<close>

definition try_suite ::
  "interp \<Rightarrow> http_outcome \<times> bool \<Rightarrow> bot_state \<Rightarrow> (error \<times> bot_state) + bot_state" where
  "try_suite rt ev st =
     (case ev of (outcome, delivered) \<Rightarrow>
      (case get_api_answer rt (timestamp st) outcome of
         Inl e \<Rightarrow> Inl (e, st)
       | Inr response \<Rightarrow>
      (case check_response response of
         Inl e \<Rightarrow> Inl (e, st)
       | Inr homeworks \<Rightarrow>
      (case (case homeworks of
               [] \<Rightarrow> Inr st
             | homework # _ \<Rightarrow>
                 (case parse_status rt homework of
                    Inl e \<Rightarrow> Inl (e, st)
                  | Inr message \<Rightarrow> Inr (send_message delivered message st))) of
         Inl failure \<Rightarrow> Inl failure
       | Inr st' \<Rightarrow>
      (case response_get rt response ''current_date'' (timestamp st') of
         Inl e \<Rightarrow> Inl (e, st')
       | Inr v \<Rightarrow> Inr (st'\<lparr>timestamp := v\<rparr>))))))"

text \<open>The \<^verbatim>\<open>except Exception\<close> suite of the loop body.\<close>

definition except_suite :: "interp \<Rightarrow> bool \<Rightarrow> error \<Rightarrow> bot_state \<Rightarrow> bot_state" where
  "except_suite rt delivered err st =
     (let message = msg_failure @ error_text rt err @ ''.'' in
      if last_error_message st \<noteq> Some message then
        (send_message delivered message st)\<lparr>last_error_message := Some message\<rparr>
      else st)"

text \<open>
  One iteration of \<^verbatim>\<open>while True\<close>; the \<^verbatim>\<open>finally\<close> suite sleeps \<open>RETRY_PERIOD\<close>
  seconds and changes no state.
\<close>

definition iteration :: "interp \<Rightarrow> http_outcome \<times> bool \<Rightarrow> bot_state \<Rightarrow> bot_state" where
  "iteration rt ev st =
     (case try_suite rt ev st of
        Inr st' \<Rightarrow> st'
      | Inl (err, st') \<Rightarrow> except_suite rt (snd ev) err st')"

text \<open>
  The loop runs until \<^verbatim>\<open>KeyboardInterrupt\<close>; a run is the list of the iterations that
  completed before it.
\<close>

fun poll_loop :: "interp \<Rightarrow> (http_outcome \<times> bool) list \<Rightarrow> bot_state \<Rightarrow> bot_state" where
  "poll_loop rt [] st = st"
| "poll_loop rt (ev # evs) st = poll_loop rt evs (iteration rt ev st)"

text \<open>
  \<^verbatim>\<open>main\<close>, given the clock at start (\<open>now\<close>), whether the greeting is delivered, and
  the iterations of the run. The exception of \<^verbatim>\<open>check_tokens\<close> leaves \<^verbatim>\<open>main\<close>
  before the bot is built; building the bot with a token that is present is taken to
  succeed.
\<close>

definition main :: "interp \<Rightarrow> config \<Rightarrow> int \<Rightarrow> bool \<Rightarrow> (http_outcome \<times> bool) list \<Rightarrow> error + bot_state" where
  "main rt cfg now greeted evs =
     (case check_tokens cfg of
        Inl e \<Rightarrow> Inl e
      | Inr _ \<Rightarrow>
          Inr (poll_loop rt evs
            (send_message greeted TEXT
               \<lparr>timestamp = PInt now, last_error_message = None, outbox = []\<rparr>)))"


section \<open>A concrete interpreter\<close>

text \<open>
  An interpreter for evaluating the model on concrete inputs: its \<^verbatim>\<open>repr\<close> of a
  string puts it between apostrophes, as CPython does for a string without quotes,
  backslashes or non-printable characters, and its exception texts are short fixed
  phrases.
\<close>

definition sample_interp :: interp where
  "sample_interp =
     \<lparr>repr_str = (\<lambda>s. [CHR 0x27] @ s @ [CHR 0x27]),
      fault_text = (\<lambda>f. case f of
          Unhashable v \<Rightarrow> ''unhashable type''
        | NotContainer v \<Rightarrow> ''argument is not iterable''
        | BadSubscript v \<Rightarrow> ''indices must be integers''
        | NoAttribute r a \<Rightarrow> ''object has no attribute '' @ a)\<rparr>"

text \<open>
  Sample inputs of a run: a configuration with all three values, an iteration in which
  the service answers 503, one in which the request itself fails, one in which the
  service reports no homework and the date 2000, and the state of a run that
  has sent its greeting at time 1000.
\<close>

definition sample_config :: config where
  "sample_config =
     \<lparr>PRACTICUM_TOKEN = Some ''practicum'', TELEGRAM_TOKEN = Some ''telegram'',
      TELEGRAM_CHAT_ID = Some ''42''\<rparr>"

definition sample_outage :: "http_outcome \<times> bool" where
  "sample_outage = (Returned (Response 503 JSONDecodeError), True)"

definition sample_no_route :: "http_outcome \<times> bool" where
  "sample_no_route = (RequestException, True)"

definition sample_no_news :: "http_outcome \<times> bool" where
  "sample_no_news =
     (Returned (Response 200
        (Parsed (PDict [(''homeworks'', PList []), (''current_date'', PInt 2000)]))), True)"

definition sample_started :: bot_state where
  "sample_started =
     \<lparr>timestamp = PInt 1000, last_error_message = None, outbox = [(TEXT, True)]\<rparr>"

text \<open>
  The diagnostic text of the 503 iteration, and the state of the run after one such
  iteration followed by one successful iteration.
\<close>

definition sample_outage_text :: string where
  "sample_outage_text = msg_failure @ (msg_endpoint @ ENDPOINT @ msg_unavailable) @ ''.''"

definition sample_recovered :: bot_state where
  "sample_recovered =
     \<lparr>timestamp = PInt 2000, last_error_message = Some sample_outage_text,
      outbox = [(TEXT, True), (sample_outage_text, True)]\<rparr>"



section \<open>Properties of the text operations\<close>

lemma take_eq_iff_prefix: "take (length n) h = n \<longleftrightarrow> (\<exists>b. h = n @ b)"
  by (metis append_eq_conv_conj append_take_drop_id)

lemma is_substr_iff: "is_substr n h \<longleftrightarrow> (\<exists>a b. h = a @ n @ b)"
proof (induction h)
  case Nil
  show ?case by auto
next
  case (Cons c cs)
  have "(\<exists>a b. c # cs = a @ n @ b) \<longleftrightarrow> (\<exists>b. c # cs = n @ b) \<or> (\<exists>a b. cs = a @ n @ b)"
  proof
    assume "\<exists>a b. c # cs = a @ n @ b"
    then obtain a b where ab: "c # cs = a @ n @ b" by blast
    show "(\<exists>b. c # cs = n @ b) \<or> (\<exists>a b. cs = a @ n @ b)"
    proof (cases a)
      case Nil
      with ab show ?thesis by auto
    next
      case (Cons x a')
      with ab have "cs = a' @ n @ b" by simp
      then show ?thesis by blast
    qed
  next
    assume "(\<exists>b. c # cs = n @ b) \<or> (\<exists>a b. cs = a @ n @ b)"
    then show "\<exists>a b. c # cs = a @ n @ b"
    proof
      assume "\<exists>b. c # cs = n @ b"
      then obtain b where "c # cs = [] @ n @ b" by auto
      then show ?thesis by blast
    next
      assume "\<exists>a b. cs = a @ n @ b"
      then obtain a b where "c # cs = (c # a) @ n @ b" by auto
      then show ?thesis by blast
    qed
  qed
  with Cons show ?case
    by (simp only: is_substr.simps take_eq_iff_prefix)
qed

lemma join_member: "x \<in> set xs \<Longrightarrow> \<exists>a b. join sep xs = a @ x @ b"
proof (induction sep xs rule: join.induct)
  case (1 sep)
  then show ?case by simp
next
  case (2 sep y)
  then have "join sep [y] = [] @ x @ []" by simp
  then show ?case by blast
next
  case (3 sep y z zs)
  show ?case
  proof (cases "x = y")
    case True
    then have "join sep (y # z # zs) = [] @ x @ (sep @ join sep (z # zs))" by simp
    then show ?thesis by blast
  next
    case False
    with 3 obtain a b where "join sep (z # zs) = a @ x @ b" by auto
    then have "join sep (y # z # zs) = (y @ sep @ a) @ x @ b" by simp
    then show ?thesis by blast
  qed
qed


lemma missing_tokens_nonempty:
  "(\<exists>name \<in> set tokens. py_not (global_value cfg name)) \<Longrightarrow>
     filter (\<lambda>name. py_not (global_value cfg name)) tokens \<noteq> []"
  by (simp add: filter_empty_conv)

text \<open>
  Claim C8. When one or more of the three required values is \<open>None\<close> or empty,
  \<^verbatim>\<open>check_tokens\<close> raises \<^verbatim>\<open>MissingTokensError\<close>; its message is the fixed prefix,
  then every missing name in the order of \<open>tokens\<close>, joined by a comma and a space, then a
  full stop, so that each missing name occurs in it; \<^verbatim>\<open>main\<close> ends with the same
  exception whatever the run would have been, before any iteration of the loop; and when
  \<open>TELEGRAM_TOKEN\<close> alone is missing the list is that one name.
\<close>

theorem check_tokens_lists_all_missing:
  assumes "\<exists>name \<in> set tokens. py_not (global_value cfg name)"
  shows "let message = msg_missing_env @
             join '', '' (filter (\<lambda>name. py_not (global_value cfg name)) tokens) @ ''.''
         in check_tokens cfg = Inl (MissingTokensError message) \<and>
            main rt cfg now greeted evs = Inl (MissingTokensError message) \<and>
            (\<forall>name \<in> set tokens. py_not (global_value cfg name) \<longrightarrow> is_substr name message) \<and>
            (\<not> py_not (PRACTICUM_TOKEN cfg) \<and> py_not (TELEGRAM_TOKEN cfg) \<and>
             \<not> py_not (TELEGRAM_CHAT_ID cfg) \<longrightarrow>
               message = msg_missing_env @ ''TELEGRAM_TOKEN.'')"
proof -
  let ?missing = "filter (\<lambda>name. py_not (global_value cfg name)) tokens"
  let ?message = "msg_missing_env @ join '', '' ?missing @ ''.''"
  have ne: "?missing \<noteq> []"
    using assms by (rule missing_tokens_nonempty)
  then have ct: "check_tokens cfg = Inl (MissingTokensError ?message)"
    by (simp add: check_tokens_def Let_def)
  then have mn: "main rt cfg now greeted evs = Inl (MissingTokensError ?message)"
    by (simp add: main_def)
  have sub: "is_substr name ?message"
    if "name \<in> set tokens" and "py_not (global_value cfg name)" for name
  proof -
    from that have "name \<in> set ?missing" by simp
    then obtain a b where "join '', '' ?missing = a @ name @ b"
      using join_member by blast
    then have "?message = (msg_missing_env @ a) @ name @ (b @ ''.'')" by simp
    then show ?thesis unfolding is_substr_iff by blast
  qed
  have one: "?message = msg_missing_env @ ''TELEGRAM_TOKEN.''"
    if "\<not> py_not (PRACTICUM_TOKEN cfg)" and "py_not (TELEGRAM_TOKEN cfg)"
      and "\<not> py_not (TELEGRAM_CHAT_ID cfg)"
    using that by (simp add: tokens_def global_value_def)
  from ct mn sub one show ?thesis
    unfolding Let_def by blast
qed

theorem check_tokens_lists_all_missing_witness:
  "check_tokens
     \<lparr>PRACTICUM_TOKEN = Some ''p'', TELEGRAM_TOKEN = None, TELEGRAM_CHAT_ID = Some []\<rparr>
     = Inl (MissingTokensError (msg_missing_env @ ''TELEGRAM_TOKEN, TELEGRAM_CHAT_ID.'')) \<and>
   main sample_interp
     \<lparr>PRACTICUM_TOKEN = Some ''p'', TELEGRAM_TOKEN = None, TELEGRAM_CHAT_ID = Some []\<rparr>
     1700000000 True [(RequestException, True)]
     = Inl (MissingTokensError (msg_missing_env @ ''TELEGRAM_TOKEN, TELEGRAM_CHAT_ID.'')) \<and>
   is_substr ''TELEGRAM_CHAT_ID'' (msg_missing_env @ ''TELEGRAM_TOKEN, TELEGRAM_CHAT_ID.'') \<and>
   check_tokens
     \<lparr>PRACTICUM_TOKEN = Some ''p'', TELEGRAM_TOKEN = Some [], TELEGRAM_CHAT_ID = Some ''42''\<rparr>
     = Inl (MissingTokensError (msg_missing_env @ ''TELEGRAM_TOKEN.''))"
  using check_tokens_lists_all_missing
      [of "\<lparr>PRACTICUM_TOKEN = Some ''p'', TELEGRAM_TOKEN = None, TELEGRAM_CHAT_ID = Some []\<rparr>"
          sample_interp 1700000000 True "[(RequestException, True)]"]
    check_tokens_lists_all_missing
      [of "\<lparr>PRACTICUM_TOKEN = Some ''p'', TELEGRAM_TOKEN = Some [], TELEGRAM_CHAT_ID = Some ''42''\<rparr>"
          sample_interp 1700000000 True "[]"]
  by (simp add: tokens_def global_value_def py_not_def Let_def)

section \<open>The validator checks in order\<close>

lemma check_response_not_mapping:
  "(\<forall>d. response \<noteq> Decoded (PDict d)) \<Longrightarrow>
     check_response response = Inl (TypeError msg_not_dict)"
  by (induction response rule: check_response.induct) simp_all

lemma check_response_homeworks_not_list:
  assumes "has_key d ''homeworks''" and "has_key d ''current_date''"
    and "\<forall>hs. map_of d ''homeworks'' \<noteq> Some (PList hs)"
  shows "check_response (Decoded (PDict d)) = Inl (TypeError msg_homeworks_not_list)"
proof (cases "map_of d ''homeworks''")
  case None
  with assms show ?thesis by (simp add: dict_get_def)
next
  case (Some v)
  with assms have "\<forall>hs. v \<noteq> PList hs" by simp
  with Some assms show ?thesis
    by (cases v) (simp_all add: dict_get_def)
qed

text \<open>
  Claim C3. \<^verbatim>\<open>check_response\<close> checks in the order of its four tests and stops at
  the first that fails: a payload that is not a dictionary (also the response object
  itself) raises \<^verbatim>\<open>TypeError\<close>; a dictionary without the key \<open>homeworks\<close> raises
  \<^verbatim>\<open>InvalidAPIResponseError\<close> with the message that quotes \<open>homeworks\<close>; one with
  that key and without \<open>current_date\<close> raises it with the message that quotes
  \<open>current_date\<close>; one with both keys whose \<open>homeworks\<close> value is not a list raises
  \<^verbatim>\<open>TypeError\<close>; otherwise the list is returned, the empty list as well.
\<close>

theorem check_response_checks_in_order:
  "((\<forall>d. response \<noteq> Decoded (PDict d)) \<longrightarrow>
      check_response response = Inl (TypeError msg_not_dict)) \<and>
   (\<not> has_key d ''homeworks'' \<longrightarrow>
      check_response (Decoded (PDict d)) = Inl (InvalidAPIResponseError msg_no_homeworks_key)) \<and>
   (has_key d ''homeworks'' \<and> \<not> has_key d ''current_date'' \<longrightarrow>
      check_response (Decoded (PDict d)) = Inl (InvalidAPIResponseError msg_no_current_date_key)) \<and>
   (has_key d ''homeworks'' \<and> has_key d ''current_date'' \<and>
    (\<forall>hs. map_of d ''homeworks'' \<noteq> Some (PList hs)) \<longrightarrow>
      check_response (Decoded (PDict d)) = Inl (TypeError msg_homeworks_not_list)) \<and>
   (has_key d ''homeworks'' \<and> has_key d ''current_date'' \<and>
    map_of d ''homeworks'' = Some (PList hs) \<longrightarrow>
      check_response (Decoded (PDict d)) = Inr hs) \<and>
   check_response (Decoded (PDict [(''homeworks'', PList []), (''current_date'', v)])) = Inr [] \<and>
   is_substr ([CHR 0x22] @ ''homeworks'' @ [CHR 0x22]) msg_no_homeworks_key \<and>
   is_substr ([CHR 0x22] @ ''current_date'' @ [CHR 0x22]) msg_no_current_date_key"
proof -
  have a: "(\<forall>d. response \<noteq> Decoded (PDict d)) \<longrightarrow>
      check_response response = Inl (TypeError msg_not_dict)"
    using check_response_not_mapping by blast
  have b: "\<not> has_key d ''homeworks'' \<longrightarrow>
      check_response (Decoded (PDict d)) = Inl (InvalidAPIResponseError msg_no_homeworks_key)"
    by simp
  have c: "has_key d ''homeworks'' \<and> \<not> has_key d ''current_date'' \<longrightarrow>
      check_response (Decoded (PDict d)) = Inl (InvalidAPIResponseError msg_no_current_date_key)"
    by simp
  have e: "has_key d ''homeworks'' \<and> has_key d ''current_date'' \<and>
    (\<forall>hs. map_of d ''homeworks'' \<noteq> Some (PList hs)) \<longrightarrow>
      check_response (Decoded (PDict d)) = Inl (TypeError msg_homeworks_not_list)"
    using check_response_homeworks_not_list by blast
  have f: "has_key d ''homeworks'' \<and> has_key d ''current_date'' \<and>
    map_of d ''homeworks'' = Some (PList hs) \<longrightarrow>
      check_response (Decoded (PDict d)) = Inr hs"
    by (simp add: dict_get_def)
  have g: "check_response (Decoded (PDict [(''homeworks'', PList []), (''current_date'', v)])) = Inr []"
    by (simp add: has_key_def dict_get_def)
  have h: "is_substr ([CHR 0x22] @ ''homeworks'' @ [CHR 0x22]) msg_no_homeworks_key"
    by (simp add: msg_no_homeworks_key_def)
  have i: "is_substr ([CHR 0x22] @ ''current_date'' @ [CHR 0x22]) msg_no_current_date_key"
    by (simp add: msg_no_current_date_key_def)
  from a b c e f g h i show ?thesis by blast
qed

theorem check_response_checks_in_order_witness:
  "check_response (Decoded (PList [])) = Inl (TypeError msg_not_dict) \<and>
   check_response (Decoded (PDict [(''current_date'', PInt 5)]))
     = Inl (InvalidAPIResponseError msg_no_homeworks_key) \<and>
   check_response (Decoded (PDict [(''homeworks'', PList [])]))
     = Inl (InvalidAPIResponseError msg_no_current_date_key) \<and>
   check_response (Decoded (PDict [(''homeworks'', PStr ''x''), (''current_date'', PInt 5)]))
     = Inl (TypeError msg_homeworks_not_list) \<and>
   check_response (Decoded (PDict [(''homeworks'', PList [PInt 7]), (''current_date'', PInt 5)]))
     = Inr [PInt 7] \<and>
   check_response (Decoded (PDict [(''homeworks'', PList []), (''current_date'', PInt 2000)]))
     = Inr []"
  using check_response_checks_in_order [of "Decoded (PList [])" "[(''current_date'', PInt 5)]" "[]" "PInt 2000"]
    check_response_checks_in_order [of "Decoded PNone" "[(''homeworks'', PList [])]" "[]" "PInt 2000"]
    check_response_checks_in_order
      [of "Decoded PNone" "[(''homeworks'', PStr ''x''), (''current_date'', PInt 5)]" "[]" "PInt 2000"]
    check_response_checks_in_order
      [of "Decoded PNone" "[(''homeworks'', PList [PInt 7]), (''current_date'', PInt 5)]" "[PInt 7]" "PInt 2000"]
  by (simp add: has_key_def)

section \<open>The fetcher\<close>

text \<open>
  Claim C1. On a response with status 200 whose body is not JSON, \<^verbatim>\<open>get_api_answer\<close>
  raises nothing: it returns the response object, undecoded, and it is
  \<^verbatim>\<open>check_response\<close> that then raises \<^verbatim>\<open>TypeError\<close> because the value is not a
  dictionary.
\<close>

theorem get_api_answer_returns_undecoded_response:
  "get_api_answer rt ts (Returned (Response 200 JSONDecodeError))
     = Inr (Raw (Response 200 JSONDecodeError)) \<and>
   check_response (Raw (Response 200 JSONDecodeError)) = Inl (TypeError msg_not_dict)"
  by (simp add: get_api_answer_def)

theorem get_api_answer_returns_undecoded_response_witness:
  "get_api_answer sample_interp (PInt 1700000000) (Returned (Response 200 JSONDecodeError))
     = Inr (Raw (Response 200 JSONDecodeError))"
  using get_api_answer_returns_undecoded_response [of sample_interp "PInt 1700000000"]
  by simp

text \<open>
  Claim C7, as the code has it. A \<^verbatim>\<open>RequestException\<close> of the transport becomes an
  \<^verbatim>\<open>APIRequestError\<close> whose message holds the endpoint and the parameters of the
  request, so the transport's own exception does not reach the caller; a response whose
  status code is not 200 raises \<^verbatim>\<open>APIRequestError\<close> with the message that holds the
  endpoint, whatever the code and whatever the body; and a response with status code 200
  does not take this failure path: for it the function raises no \<^verbatim>\<open>APIRequestError\<close>.
\<close>

theorem get_api_answer_transport_errors:
  "get_api_answer rt ts RequestException
     = Inl (APIRequestError (msg_request_error @ ENDPOINT @ '' c params='' @
         ''{'' @ repr_str rt ''from_date'' @ '': '' @ py_repr rt ts @ ''}'' @ ''.'')) \<and>
   (status_code r \<noteq> 200 \<longrightarrow>
      get_api_answer rt ts (Returned r)
        = Inl (APIRequestError (msg_endpoint @ ENDPOINT @ msg_unavailable))) \<and>
   (status_code r = 200 \<longrightarrow>
      (\<forall>m. get_api_answer rt ts (Returned r) \<noteq> Inl (APIRequestError m)))"
proof -
  have a: "get_api_answer rt ts RequestException
     = Inl (APIRequestError (msg_request_error @ ENDPOINT @ '' c params='' @
         ''{'' @ repr_str rt ''from_date'' @ '': '' @ py_repr rt ts @ ''}'' @ ''.''))"
    by (simp add: get_api_answer_def py_str_def)
  have b: "status_code r \<noteq> 200 \<longrightarrow>
      get_api_answer rt ts (Returned r)
        = Inl (APIRequestError (msg_endpoint @ ENDPOINT @ msg_unavailable))"
    by (simp add: get_api_answer_def)
  have c: "status_code r = 200 \<longrightarrow>
      (\<forall>m. get_api_answer rt ts (Returned r) \<noteq> Inl (APIRequestError m))"
    by (simp add: get_api_answer_def split: json_outcome.splits)
  from a b c show ?thesis by blast
qed

theorem get_api_answer_transport_errors_witness:
  "get_api_answer sample_interp (PInt 1000) RequestException
     = Inl (APIRequestError (msg_request_error @ ENDPOINT @ '' c params={'from_date': 1000}.'')) \<and>
   get_api_answer sample_interp (PInt 1000) (Returned (Response 503 JSONDecodeError))
     = Inl (APIRequestError (msg_endpoint @ ENDPOINT @ msg_unavailable)) \<and>
   get_api_answer sample_interp (PInt 1000) (Returned (Response 404 (Parsed (PDict []))))
     = Inl (APIRequestError (msg_endpoint @ ENDPOINT @ msg_unavailable)) \<and>
   get_api_answer sample_interp (PInt 1000) (Returned (Response 200 (Parsed (PDict []))))
     \<noteq> Inl (APIRequestError (msg_endpoint @ ENDPOINT @ msg_unavailable)) \<and>
   get_api_answer sample_interp (PInt 1000)
       (Returned (Response 200 (Raised ''RecursionError'' ''maximum recursion depth exceeded'')))
     \<noteq> Inl (APIRequestError (msg_endpoint @ ENDPOINT @ msg_unavailable))"
proof -
  note down = get_api_answer_transport_errors
      [of sample_interp "PInt 1000" "Response 503 JSONDecodeError"]
  note absent = get_api_answer_transport_errors
      [of sample_interp "PInt 1000" "Response 404 (Parsed (PDict []))"]
  note fine = get_api_answer_transport_errors
      [of sample_interp "PInt 1000" "Response 200 (Parsed (PDict []))"]
  note deep = get_api_answer_transport_errors
      [of sample_interp "PInt 1000"
          "Response 200 (Raised ''RecursionError'' ''maximum recursion depth exceeded'')"]
  from down have a: "get_api_answer sample_interp (PInt 1000) RequestException
     = Inl (APIRequestError (msg_request_error @ ENDPOINT @ '' c params={'from_date': 1000}.''))"
    by (simp add: sample_interp_def dec_nat.simps)
  from down have b: "get_api_answer sample_interp (PInt 1000)
       (Returned (Response 503 JSONDecodeError))
     = Inl (APIRequestError (msg_endpoint @ ENDPOINT @ msg_unavailable))"
    by simp
  from absent have c: "get_api_answer sample_interp (PInt 1000)
       (Returned (Response 404 (Parsed (PDict []))))
     = Inl (APIRequestError (msg_endpoint @ ENDPOINT @ msg_unavailable))"
    by simp
  from fine have d: "get_api_answer sample_interp (PInt 1000)
       (Returned (Response 200 (Parsed (PDict []))))
     \<noteq> Inl (APIRequestError (msg_endpoint @ ENDPOINT @ msg_unavailable))"
    by simp
  from deep have e: "get_api_answer sample_interp (PInt 1000)
       (Returned (Response 200 (Raised ''RecursionError'' ''maximum recursion depth exceeded'')))
     \<noteq> Inl (APIRequestError (msg_endpoint @ ENDPOINT @ msg_unavailable))"
    by simp
  from a b c d e show ?thesis by blast
qed

text \<open>
  The claim's last clause fails on the code: the test is \<^verbatim>\<open>!= HTTPStatus.OK\<close>, so a
  response with status 201, a 2xx code, takes the failure path.
\<close>

theorem status_201_takes_failure_path:
  "200 \<le> status_code (Response 201 (Parsed (PDict []))) \<and>
   status_code (Response 201 (Parsed (PDict []))) < 300 \<and>
   get_api_answer sample_interp (PInt 1000) (Returned (Response 201 (Parsed (PDict []))))
     = Inl (APIRequestError (msg_endpoint @ ENDPOINT @ msg_unavailable))"
  by (simp add: get_api_answer_def)

section \<open>The translator\<close>

lemma has_key_map_of: "has_key d k \<longleftrightarrow> (\<exists>v. map_of d k = Some v)"
proof -
  have "(\<exists>v. map_of d k = Some v) \<longleftrightarrow> map_of d k \<noteq> None"
    by auto
  also have "\<dots> \<longleftrightarrow> k \<in> fst ` set d"
    by (simp add: map_of_eq_None_iff)
  finally show ?thesis
    by (simp add: has_key_def)
qed

lemma verdict_keys:
  "s \<in> fst ` set HOMEWORK_VERDICTS \<longleftrightarrow> s \<in> {''approved'', ''reviewing'', ''rejected''}"
  by (auto simp: HOMEWORK_VERDICTS_def)

lemma verdict_known:
  "s \<in> set (map fst HOMEWORK_VERDICTS) \<longleftrightarrow> (\<exists>verdict. map_of HOMEWORK_VERDICTS s = Some verdict)"
proof -
  have "(\<exists>verdict. map_of HOMEWORK_VERDICTS s = Some verdict) \<longleftrightarrow> map_of HOMEWORK_VERDICTS s \<noteq> None"
    by auto
  also have "\<dots> \<longleftrightarrow> s \<in> fst ` set HOMEWORK_VERDICTS"
    by (simp add: map_of_eq_None_iff)
  finally show ?thesis
    by simp
qed

lemma parse_status_missing_key:
  "\<not> has_key d ''homework_name'' \<or> \<not> has_key d ''status'' \<Longrightarrow>
     parse_status rt (PDict d) = Inl (InvalidAPIResponseError msg_missing_keys)"
  by (auto simp: parse_status_def)

lemma parse_status_both_keys:
  assumes "map_of d ''homework_name'' = Some name" and "map_of d ''status'' = Some status"
  shows "parse_status rt (PDict d) =
     (case in_verdicts rt status of
        Inl e \<Rightarrow> Inl e
      | Inr known \<Rightarrow>
          if \<not> known then
            Inl (UnknownHomeworkStatusError (msg_unknown_status @ py_str rt status))
          else
            (case verdict_of rt status of
               Inl e \<Rightarrow> Inl e
             | Inr verdict \<Rightarrow>
                 Inr (msg_status_changed @ py_str rt name @ [CHR 0x22] @ ''. '' @ verdict)))"
proof -
  from assms have "has_key d ''homework_name''" and "has_key d ''status''"
    by (simp_all add: has_key_map_of)
  with assms show ?thesis
    by (simp add: parse_status_def)
qed

lemma parse_status_known:
  assumes "map_of d ''homework_name'' = Some name"
    and "map_of d ''status'' = Some (PStr s)"
    and "map_of HOMEWORK_VERDICTS s = Some verdict"
  shows "parse_status rt (PDict d)
     = Inr (msg_status_changed @ py_str rt name @ [CHR 0x22] @ ''. '' @ verdict)"
proof -
  from assms(3) have "s \<in> set (map fst HOMEWORK_VERDICTS)"
    unfolding verdict_known by blast
  with assms show ?thesis
    by (simp add: parse_status_both_keys [OF assms(1) assms(2)] in_verdicts_def verdict_of_def)
qed

lemma parse_status_success_dict:
  assumes "parse_status rt homework = Inr message"
  shows "\<exists>d. homework = PDict d"
proof (cases homework)
  case (PStr s)
  with assms show ?thesis
    by (simp add: parse_status_def split: if_splits)
next
  case (PList xs)
  with assms show ?thesis
    by (simp add: parse_status_def split: if_splits)
qed (use assms in \<open>simp_all add: parse_status_def\<close>)

lemma parse_status_success_shape:
  assumes "parse_status rt homework = Inr message"
  shows "\<exists>d name s verdict.
           homework = PDict d \<and> map_of d ''homework_name'' = Some name \<and>
           map_of d ''status'' = Some (PStr s) \<and>
           map_of HOMEWORK_VERDICTS s = Some verdict \<and>
           message = msg_status_changed @ py_str rt name @ [CHR 0x22] @ ''. '' @ verdict"
proof -
  from assms obtain d where d: "homework = PDict d"
    using parse_status_success_dict by blast
  have keys: "has_key d ''homework_name'' \<and> has_key d ''status''"
  proof (rule ccontr)
    assume "\<not> ?thesis"
    then have "parse_status rt (PDict d) = Inl (InvalidAPIResponseError msg_missing_keys)"
      using parse_status_missing_key by blast
    with assms d show False by simp
  qed
  then obtain name status where
    n: "map_of d ''homework_name'' = Some name" and s: "map_of d ''status'' = Some status"
    unfolding has_key_map_of by blast
  note eq = parse_status_both_keys [OF n s, of rt]
  from assms d eq obtain verdict where
    known: "in_verdicts rt status = Inr True" and v: "verdict_of rt status = Inr verdict"
    and m: "message = msg_status_changed @ py_str rt name @ [CHR 0x22] @ ''. '' @ verdict"
    by (auto split: sum.splits if_splits)
  from known obtain s' where s': "status = PStr s'"
    by (cases status) (simp_all add: in_verdicts_def)
  with v have "map_of HOMEWORK_VERDICTS s' = Some verdict"
    by (simp add: verdict_of_def split: option.splits)
  with d n s s' m show ?thesis by blast
qed

text \<open>
  Claim C2, as the code has it. For the record with \<open>homework_name\<close> \<open>hw1\<close> and \<open>status\<close>
  \<open>approved\<close>, \<^verbatim>\<open>parse_status\<close> returns the Russian sentence of line 141 up to its
  opening quotation mark, then \<open>hw1\<close>, a quotation mark, a full stop, a space and the verdict
  for \<open>approved\<close>; and whenever \<^verbatim>\<open>parse_status\<close> returns, its argument is a dictionary
  with both keys whose status is a key of the verdict table, and the text is that sentence
  around the name, followed by the verdict of the status.
\<close>

theorem parse_status_composes_message:
  "parse_status rt (PDict [(''homework_name'', PStr ''hw1''), (''status'', PStr ''approved'')])
     = Inr (msg_status_changed @ ''hw1'' @ [CHR 0x22] @ ''. '' @ verdict_approved) \<and>
   (parse_status rt homework = Inr message \<longrightarrow>
      (\<exists>d name s verdict.
         homework = PDict d \<and> map_of d ''homework_name'' = Some name \<and>
         map_of d ''status'' = Some (PStr s) \<and>
         map_of HOMEWORK_VERDICTS s = Some verdict \<and>
         message = msg_status_changed @ py_str rt name @ [CHR 0x22] @ ''. '' @ verdict))"
proof -
  have "parse_status rt (PDict [(''homework_name'', PStr ''hw1''), (''status'', PStr ''approved'')])
     = Inr (msg_status_changed @ py_str rt (PStr ''hw1'') @ [CHR 0x22] @ ''. '' @ verdict_approved)"
    by (rule parse_status_known [where s = "''approved''"]) (simp_all add: HOMEWORK_VERDICTS_def)
  then have a: "parse_status rt (PDict [(''homework_name'', PStr ''hw1''), (''status'', PStr ''approved'')])
     = Inr (msg_status_changed @ ''hw1'' @ [CHR 0x22] @ ''. '' @ verdict_approved)"
    by (simp add: py_str_def)
  from a parse_status_success_shape [of rt homework message] show ?thesis
    by blast
qed

theorem parse_status_composes_message_witness:
  "parse_status sample_interp (PDict [(''status'', PStr ''rejected''), (''homework_name'', PStr ''hw2'')])
     = Inr (msg_status_changed @ ''hw2'' @ [CHR 0x22] @ ''. '' @ verdict_rejected) \<and>
   (\<exists>d name s verdict.
      PDict [(''status'', PStr ''rejected''), (''homework_name'', PStr ''hw2'')] = PDict d \<and>
      map_of d ''homework_name'' = Some name \<and> map_of d ''status'' = Some (PStr s) \<and>
      map_of HOMEWORK_VERDICTS s = Some verdict \<and>
      msg_status_changed @ ''hw2'' @ [CHR 0x22] @ ''. '' @ verdict_rejected
        = msg_status_changed @ py_str sample_interp name @ [CHR 0x22] @ ''. '' @ verdict)"
proof -
  have run: "parse_status sample_interp
      (PDict [(''status'', PStr ''rejected''), (''homework_name'', PStr ''hw2'')])
     = Inr (msg_status_changed @ ''hw2'' @ [CHR 0x22] @ ''. '' @ verdict_rejected)"
    by (simp add: parse_status_def has_key_def in_verdicts_def verdict_of_def HOMEWORK_VERDICTS_def py_str_def)
  with parse_status_composes_message
      [of sample_interp "PDict [(''status'', PStr ''rejected''), (''homework_name'', PStr ''hw2'')]"
          "msg_status_changed @ ''hw2'' @ [CHR 0x22] @ ''. '' @ verdict_rejected"]
  show ?thesis by blast
qed

text \<open>
  The text the claim gives for that record, an English sentence with a colon before the
  verdict, is not what the code returns.
\<close>

theorem parse_status_not_the_english_text:
  "parse_status sample_interp
       (PDict [(''homework_name'', PStr ''hw1''), (''status'', PStr ''approved'')])
     \<noteq> Inr (''Status changed for submission '' @ [CHR 0x22] @ ''hw1'' @ [CHR 0x22] @ '': '' @
            verdict_approved)"
  by (simp add: parse_status_def has_key_def in_verdicts_def verdict_of_def HOMEWORK_VERDICTS_def py_str_def
      msg_status_changed_def)

text \<open>
  Claim C4, as the code has it. A record without the key \<open>homework_name\<close> or without the key
  \<open>status\<close> raises \<^verbatim>\<open>InvalidAPIResponseError\<close>. A record with both keys whose status is
  hashable (null, a boolean, a number or a string) and is none of the three strings
  \<open>approved\<close>, \<open>reviewing\<close>, \<open>rejected\<close> raises \<^verbatim>\<open>UnknownHomeworkStatusError\<close> with the
  status in its message. A record with both keys whose status is a list or a dictionary
  raises the interpreter's \<^verbatim>\<open>TypeError\<close> for an unhashable value. None of them returns
  a message.
\<close>

theorem parse_status_rejects:
  "(\<not> has_key d ''homework_name'' \<or> \<not> has_key d ''status'' \<longrightarrow>
      parse_status rt (PDict d) = Inl (InvalidAPIResponseError msg_missing_keys)) \<and>
   (map_of d ''homework_name'' = Some name \<and> map_of d ''status'' = Some status \<and>
    hashable status \<and>
    status \<notin> {PStr ''approved'', PStr ''reviewing'', PStr ''rejected''} \<longrightarrow>
      parse_status rt (PDict d)
        = Inl (UnknownHomeworkStatusError (msg_unknown_status @ py_str rt status))) \<and>
   (map_of d ''homework_name'' = Some name \<and> map_of d ''status'' = Some status \<and>
    \<not> hashable status \<longrightarrow>
      parse_status rt (PDict d) = Inl (TypeError (fault_text rt (Unhashable status))))"
proof -
  have a: "\<not> has_key d ''homework_name'' \<or> \<not> has_key d ''status'' \<longrightarrow>
      parse_status rt (PDict d) = Inl (InvalidAPIResponseError msg_missing_keys)"
    using parse_status_missing_key by blast
  have b: "parse_status rt (PDict d)
        = Inl (UnknownHomeworkStatusError (msg_unknown_status @ py_str rt status))"
    if n: "map_of d ''homework_name'' = Some name" and s: "map_of d ''status'' = Some status"
      and h: "hashable status"
      and u: "status \<notin> {PStr ''approved'', PStr ''reviewing'', PStr ''rejected''}"
  proof -
    from h u have "in_verdicts rt status = Inr False"
      by (cases status) (auto simp: in_verdicts_def verdict_keys)
    then show ?thesis
      by (simp add: parse_status_both_keys [OF n s])
  qed
  have c: "parse_status rt (PDict d) = Inl (TypeError (fault_text rt (Unhashable status)))"
    if n: "map_of d ''homework_name'' = Some name" and s: "map_of d ''status'' = Some status"
      and h: "\<not> hashable status"
  proof -
    from h have "in_verdicts rt status = Inl (TypeError (fault_text rt (Unhashable status)))"
      by (simp add: in_verdicts_def)
    then show ?thesis
      by (simp add: parse_status_both_keys [OF n s])
  qed
  from a b c show ?thesis by blast
qed

theorem parse_status_rejects_witness:
  "parse_status sample_interp (PDict [(''status'', PStr ''approved'')])
     = Inl (InvalidAPIResponseError msg_missing_keys) \<and>
   parse_status sample_interp (PDict [(''homework_name'', PStr ''hw2''), (''status'', PStr ''weird'')])
     = Inl (UnknownHomeworkStatusError (msg_unknown_status @ ''weird'')) \<and>
   parse_status sample_interp (PDict [(''homework_name'', PStr ''hw2''), (''status'', PInt 5)])
     = Inl (UnknownHomeworkStatusError (msg_unknown_status @ ''5'')) \<and>
   parse_status sample_interp (PDict [(''homework_name'', PStr ''hw2''), (''status'', PList [])])
     = Inl (TypeError ''unhashable type'')"
  using parse_status_rejects
      [of "[(''status'', PStr ''approved'')]" sample_interp "PStr ''hw2''" "PStr ''weird''"]
    parse_status_rejects
      [of "[(''homework_name'', PStr ''hw2''), (''status'', PStr ''weird'')]" sample_interp
          "PStr ''hw2''" "PStr ''weird''"]
    parse_status_rejects
      [of "[(''homework_name'', PStr ''hw2''), (''status'', PInt 5)]" sample_interp
          "PStr ''hw2''" "PInt 5"]
    parse_status_rejects
      [of "[(''homework_name'', PStr ''hw2''), (''status'', PList [])]" sample_interp
          "PStr ''hw2''" "PList []"]
  by (simp add: has_key_def py_str_def sample_interp_def dec_nat.simps)

text \<open>
  The claim fails for a status that is not hashable: the record
  \<^verbatim>\<open>{"homework_name": "hw2", "status": ["approved"]}\<close> has a status outside the three
  strings, and the exception is \<^verbatim>\<open>TypeError\<close>, not \<^verbatim>\<open>UnknownHomeworkStatusError\<close>.
\<close>

theorem parse_status_unhashable_status:
  "PList [PStr ''approved''] \<notin> {PStr ''approved'', PStr ''reviewing'', PStr ''rejected''} \<and>
   parse_status sample_interp
       (PDict [(''homework_name'', PStr ''hw2''), (''status'', PList [PStr ''approved''])])
     = Inl (TypeError ''unhashable type'')"
  by (simp add: parse_status_def has_key_def in_verdicts_def sample_interp_def)

text \<open>
  Claim C9. For every dictionary with the keys \<open>homework_name\<close> and \<open>status\<close> whose status is
  a key of the verdict table, \<^verbatim>\<open>parse_status\<close> returns the message, with the name
  embedded as \<^verbatim>\<open>str\<close> renders it: a string as it is, and a value that is not a string
  is accepted as well and embedded by its \<^verbatim>\<open>repr\<close>. These are the only conditions:
  \<^verbatim>\<open>parse_status\<close> returns on a dictionary exactly when both keys are present and the
  status is a key of the table, whatever the type of the name.
\<close>

theorem parse_status_accepts_any_name:
  "(map_of d ''homework_name'' = Some name \<and> map_of d ''status'' = Some (PStr s) \<and>
    map_of HOMEWORK_VERDICTS s = Some verdict \<longrightarrow>
      parse_status rt (PDict d)
        = Inr (msg_status_changed @ py_str rt name @ [CHR 0x22] @ ''. '' @ verdict) \<and>
      (\<forall>text. name = PStr text \<longrightarrow> py_str rt name = text) \<and>
      ((\<forall>text. name \<noteq> PStr text) \<longrightarrow> py_str rt name = py_repr rt name)) \<and>
   ((\<exists>message. parse_status rt (PDict d) = Inr message) \<longleftrightarrow>
    (\<exists>name' s' verdict'. map_of d ''homework_name'' = Some name' \<and>
       map_of d ''status'' = Some (PStr s') \<and> map_of HOMEWORK_VERDICTS s' = Some verdict'))"
proof -
  have other: "py_str rt name = py_repr rt name" if "\<forall>text. name \<noteq> PStr text"
    using that by (cases name) (simp_all add: py_str_def)
  have same: "\<forall>text. name = PStr text \<longrightarrow> py_str rt name = text"
    by (simp add: py_str_def)
  have accepted: "\<exists>message. parse_status rt (PDict d) = Inr message"
    if "\<exists>name' s' verdict'. map_of d ''homework_name'' = Some name' \<and>
       map_of d ''status'' = Some (PStr s') \<and> map_of HOMEWORK_VERDICTS s' = Some verdict'"
    using that parse_status_known [of d _ _ _ rt] by blast
  have only: "\<exists>name' s' verdict'. map_of d ''homework_name'' = Some name' \<and>
       map_of d ''status'' = Some (PStr s') \<and> map_of HOMEWORK_VERDICTS s' = Some verdict'"
    if "\<exists>message. parse_status rt (PDict d) = Inr message"
  proof -
    from that obtain message where "parse_status rt (PDict d) = Inr message"
      by blast
    from parse_status_success_shape [OF this] show ?thesis
      by auto
  qed
  from other same accepted only parse_status_known [of d name s verdict rt]
  show ?thesis by blast
qed

theorem parse_status_accepts_any_name_witness:
  "parse_status sample_interp
       (PDict [(''homework_name'', PInt 42), (''status'', PStr ''reviewing''), (''id'', PNone)])
     = Inr (msg_status_changed @ ''42'' @ [CHR 0x22] @ ''. '' @ verdict_reviewing) \<and>
   parse_status sample_interp
       (PDict [(''homework_name'', PList [PNone, PBool True]), (''status'', PStr ''approved'')])
     = Inr (msg_status_changed @ ''[None, True]'' @ [CHR 0x22] @ ''. '' @ verdict_approved) \<and>
   parse_status sample_interp
       (PDict [(''homework_name'', PStr ''hw1''), (''status'', PStr ''approved'')])
     = Inr (msg_status_changed @ ''hw1'' @ [CHR 0x22] @ ''. '' @ verdict_approved)"
proof -
  note numbered = parse_status_accepts_any_name
      [of "[(''homework_name'', PInt 42), (''status'', PStr ''reviewing''), (''id'', PNone)]"
          "PInt 42" "''reviewing''" verdict_reviewing sample_interp]
  note listed = parse_status_accepts_any_name
      [of "[(''homework_name'', PList [PNone, PBool True]), (''status'', PStr ''approved'')]"
          "PList [PNone, PBool True]" "''approved''" verdict_approved sample_interp]
  note named = parse_status_accepts_any_name
      [of "[(''homework_name'', PStr ''hw1''), (''status'', PStr ''approved'')]"
          "PStr ''hw1''" "''approved''" verdict_approved sample_interp]
  from numbered have a: "parse_status sample_interp
       (PDict [(''homework_name'', PInt 42), (''status'', PStr ''reviewing''), (''id'', PNone)])
     = Inr (msg_status_changed @ ''42'' @ [CHR 0x22] @ ''. '' @ verdict_reviewing)"
    by (simp add: HOMEWORK_VERDICTS_def dec_nat.simps)
  from listed have b: "parse_status sample_interp
       (PDict [(''homework_name'', PList [PNone, PBool True]), (''status'', PStr ''approved'')])
     = Inr (msg_status_changed @ ''[None, True]'' @ [CHR 0x22] @ ''. '' @ verdict_approved)"
    by (simp add: HOMEWORK_VERDICTS_def)
  from named have c: "parse_status sample_interp
       (PDict [(''homework_name'', PStr ''hw1''), (''status'', PStr ''approved'')])
     = Inr (msg_status_changed @ ''hw1'' @ [CHR 0x22] @ ''. '' @ verdict_approved)"
    by (simp add: HOMEWORK_VERDICTS_def)
  from a b c show ?thesis by simp
qed

section \<open>The poll loop\<close>

lemma check_response_accepts:
  assumes "check_response response = Inr homeworks"
  shows "\<exists>d. response = Decoded (PDict d) \<and> has_key d ''homeworks'' \<and>
           has_key d ''current_date'' \<and> map_of d ''homeworks'' = Some (PList homeworks)"
proof -
  have "\<exists>d. response = Decoded (PDict d)"
  proof (rule ccontr)
    assume "\<not> ?thesis"
    then have "check_response response = Inl (TypeError msg_not_dict)"
      by (simp add: check_response_not_mapping)
    with assms show False by simp
  qed
  then obtain d where d: "response = Decoded (PDict d)" by blast
  with assms have keys: "has_key d ''homeworks''" "has_key d ''current_date''"
    by (auto split: if_splits)
  have "map_of d ''homeworks'' = Some (PList homeworks)"
  proof (rule ccontr)
    assume n: "\<not> ?thesis"
    show False
    proof (cases "\<exists>hs. map_of d ''homeworks'' = Some (PList hs)")
      case True
      then obtain hs where hs: "map_of d ''homeworks'' = Some (PList hs)" by blast
      with keys have "check_response (Decoded (PDict d)) = Inr hs"
        by (simp add: dict_get_def)
      with assms d hs n show False by simp
    next
      case False
      then have "\<forall>hs. map_of d ''homeworks'' \<noteq> Some (PList hs)"
        by blast
      with keys have "check_response (Decoded (PDict d)) = Inl (TypeError msg_homeworks_not_list)"
        by (rule check_response_homeworks_not_list)
      with assms d show False by simp
    qed
  qed
  with d keys show ?thesis by blast
qed

lemma get_api_answer_decoded:
  assumes "get_api_answer rt ts outcome = Inr (Decoded v)"
  shows "\<exists>r. outcome = Returned r \<and> status_code r = 200 \<and> json r = Parsed v"
  using assms
  by (auto simp: get_api_answer_def split: http_outcome.splits if_splits json_outcome.splits)

text \<open>
  The \<^verbatim>\<open>try\<close> suite raises only before it has changed the state: what is left of the
  suite after \<^verbatim>\<open>send_message\<close> is the call of \<^verbatim>\<open>get\<close> on a value that
  \<^verbatim>\<open>check_response\<close> has accepted as a dictionary.
\<close>

lemma try_suite_failure_state:
  assumes "try_suite rt ev st = Inl (err, st')"
  shows "st' = st"
proof -
  obtain outcome delivered where ev: "ev = (outcome, delivered)"
    by (cases ev)
  show ?thesis
  proof (cases "get_api_answer rt (timestamp st) outcome")
    case (Inl e)
    with assms ev show ?thesis by (simp add: try_suite_def)
  next
    case (Inr response)
    note fetched = this
    show ?thesis
    proof (cases "check_response response")
      case (Inl e)
      with assms ev fetched show ?thesis by (simp add: try_suite_def)
    next
      case (Inr homeworks)
      then obtain d where d: "response = Decoded (PDict d)"
        using check_response_accepts by blast
      with assms ev fetched Inr show ?thesis
        by (auto simp: try_suite_def split: list.splits sum.splits)
    qed
  qed
qed

lemma try_suite_success:
  assumes "try_suite rt (outcome, delivered) st = Inr st'"
  shows "\<exists>r d v homeworks.
           outcome = Returned r \<and> status_code r = 200 \<and> json r = Parsed (PDict d) \<and>
           map_of d ''homeworks'' = Some (PList homeworks) \<and>
           map_of d ''current_date'' = Some v \<and>
           timestamp st' = v \<and> last_error_message st' = last_error_message st \<and>
           (case homeworks of
              [] \<Rightarrow> outbox st' = outbox st
            | homework # _ \<Rightarrow>
                (\<exists>message. parse_status rt homework = Inr message \<and>
                   outbox st' = outbox st @ [(message, delivered)]))"
proof -
  from assms obtain response where
    fetched: "get_api_answer rt (timestamp st) outcome = Inr response"
    by (cases "get_api_answer rt (timestamp st) outcome") (simp_all add: try_suite_def)
  with assms obtain homeworks where
    checked: "check_response response = Inr homeworks"
    by (cases "check_response response") (simp_all add: try_suite_def)
  then obtain d where d: "response = Decoded (PDict d)"
    and hk: "has_key d ''current_date''"
    and hs: "map_of d ''homeworks'' = Some (PList homeworks)"
    using check_response_accepts by blast
  from hk obtain v where v: "map_of d ''current_date'' = Some v"
    unfolding has_key_map_of by blast
  from fetched d obtain r where
    r: "outcome = Returned r" "status_code r = 200" "json r = Parsed (PDict d)"
    using get_api_answer_decoded by blast
  have rest: "timestamp st' = v \<and> last_error_message st' = last_error_message st \<and>
           (case homeworks of
              [] \<Rightarrow> outbox st' = outbox st
            | homework # _ \<Rightarrow>
                (\<exists>message. parse_status rt homework = Inr message \<and>
                   outbox st' = outbox st @ [(message, delivered)]))"
    using assms fetched checked d v
    by (auto simp: try_suite_def dict_get_def send_message_def split: list.splits sum.splits)
  with r hs v show ?thesis by blast
qed

lemma iteration_failure:
  assumes "try_suite rt ev st = Inl (err, st')"
  shows "iteration rt ev st =
     (if last_error_message st = Some (msg_failure @ error_text rt err @ ''.'') then st
      else st\<lparr>outbox := outbox st @ [(msg_failure @ error_text rt err @ ''.'', snd ev)],
              last_error_message := Some (msg_failure @ error_text rt err @ ''.'')\<rparr>)"
proof -
  from assms have "st' = st" by (rule try_suite_failure_state)
  with assms show ?thesis
    by (simp add: iteration_def except_suite_def send_message_def Let_def)
qed

lemma iteration_success:
  "try_suite rt ev st = Inr st' \<Longrightarrow> iteration rt ev st = st'"
  by (simp add: iteration_def)

text \<open>
  Claim C5. An iteration whose \<^verbatim>\<open>try\<close> suite ends without an exception has decoded a
  dictionary from a response with status 200, and leaves the timestamp equal to the value
  of that dictionary at \<open>current_date\<close>; an iteration whose \<^verbatim>\<open>try\<close> suite raises, in
  the fetch, the validation or the translation, leaves the timestamp as it was.
\<close>

theorem cursor_follows_current_date:
  "(try_suite rt (outcome, delivered) st = Inr st' \<longrightarrow>
      (\<exists>r d v. outcome = Returned r \<and> status_code r = 200 \<and> json r = Parsed (PDict d) \<and>
         map_of d ''current_date'' = Some v \<and>
         timestamp (iteration rt (outcome, delivered) st) = v)) \<and>
   (try_suite rt (outcome, delivered) st = Inl (err, st'') \<longrightarrow>
      timestamp (iteration rt (outcome, delivered) st) = timestamp st)"
proof -
  have a: "\<exists>r d v. outcome = Returned r \<and> status_code r = 200 \<and> json r = Parsed (PDict d) \<and>
         map_of d ''current_date'' = Some v \<and>
         timestamp (iteration rt (outcome, delivered) st) = v"
    if ok: "try_suite rt (outcome, delivered) st = Inr st'"
  proof -
    from ok have "iteration rt (outcome, delivered) st = st'"
      by (rule iteration_success)
    with try_suite_success [OF ok] show ?thesis by auto
  qed
  have b: "timestamp (iteration rt (outcome, delivered) st) = timestamp st"
    if "try_suite rt (outcome, delivered) st = Inl (err, st'')"
    using iteration_failure [OF that] by simp
  from a b show ?thesis by blast
qed

theorem cursor_follows_current_date_witness:
  "timestamp (iteration sample_interp
      (Returned (Response 200 (Parsed (PDict
         [(''homeworks'', PList [PDict [(''homework_name'', PStr ''hw1''),
                                        (''status'', PStr ''approved'')]]),
          (''current_date'', PInt 1000)]))), True)
      \<lparr>timestamp = PInt 5, last_error_message = None, outbox = []\<rparr>) = PInt 1000 \<and>
   timestamp (iteration sample_interp
      (Returned (Response 200 (Parsed (PDict
         [(''homeworks'', PList [PDict [(''homework_name'', PStr ''hw2''),
                                        (''status'', PStr ''weird'')]]),
          (''current_date'', PInt 3000)]))), True)
      \<lparr>timestamp = PInt 5, last_error_message = None, outbox = []\<rparr>) = PInt 5"
proof -
  let ?st = "\<lparr>timestamp = PInt 5, last_error_message = None, outbox = []\<rparr>"
  let ?good = "Returned (Response 200 (Parsed (PDict
         [(''homeworks'', PList [PDict [(''homework_name'', PStr ''hw1''),
                                        (''status'', PStr ''approved'')]]),
          (''current_date'', PInt 1000)])))"
  let ?weird = "Returned (Response 200 (Parsed (PDict
         [(''homeworks'', PList [PDict [(''homework_name'', PStr ''hw2''),
                                        (''status'', PStr ''weird'')]]),
          (''current_date'', PInt 3000)])))"
  have good: "try_suite sample_interp (?good, True) ?st =
      Inr \<lparr>timestamp = PInt 1000, last_error_message = None,
           outbox = [(msg_status_changed @ ''hw1'' @ [CHR 0x22] @ ''. '' @ verdict_approved, True)]\<rparr>"
    by (simp add: try_suite_def get_api_answer_def has_key_def dict_get_def parse_status_def
        in_verdicts_def verdict_of_def HOMEWORK_VERDICTS_def py_str_def send_message_def)
  have weird: "try_suite sample_interp (?weird, True) ?st =
      Inl (UnknownHomeworkStatusError (msg_unknown_status @ ''weird''), ?st)"
    by (simp add: try_suite_def get_api_answer_def has_key_def dict_get_def parse_status_def
        in_verdicts_def verdict_of_def HOMEWORK_VERDICTS_def py_str_def)
  from good weird
    cursor_follows_current_date [of sample_interp ?good True ?st
      "\<lparr>timestamp = PInt 1000, last_error_message = None,
        outbox = [(msg_status_changed @ ''hw1'' @ [CHR 0x22] @ ''. '' @ verdict_approved, True)]\<rparr>"
      "UnknownHomeworkStatusError (msg_unknown_status @ ''weird'')" ?st]
    cursor_follows_current_date [of sample_interp ?weird True ?st ?st
      "UnknownHomeworkStatusError (msg_unknown_status @ ''weird'')" ?st]
  show ?thesis by auto
qed

lemma iteration_failure_outbox:
  assumes "try_suite rt ev st = Inl (err, st')"
  shows "outbox (iteration rt ev st) = outbox st @
      (if last_error_message st = Some (msg_failure @ error_text rt err @ ''.'') then []
       else [(msg_failure @ error_text rt err @ ''.'', snd ev)])"
    and "last_error_message (iteration rt ev st) = Some (msg_failure @ error_text rt err @ ''.'')"
  using iteration_failure [OF assms] by simp_all

text \<open>
  Claim C6, as the code has it. Of two consecutive failing iterations, the first sends its
  diagnostic text unless that text is the last error message held at its start, and the
  second sends its text exactly when it differs from the first one's: from a state whose
  last error message is not the first text (the start of a run, where it is \<open>None\<close>) one
  notification is sent when the two texts are equal and two when they differ. After the
  two iterations the last error message is the second text. A successful iteration leaves
  the last error message as it was, and an iteration changes it only by failing with a
  text that differs from it.
\<close>

theorem consecutive_failures_notify_on_change:
  "(try_suite rt ev1 st = Inl (e1, s1) \<and>
    try_suite rt ev2 (iteration rt ev1 st) = Inl (e2, s2) \<longrightarrow>
      (let m1 = msg_failure @ error_text rt e1 @ ''.'';
           m2 = msg_failure @ error_text rt e2 @ ''.'';
           st2 = iteration rt ev2 (iteration rt ev1 st)
       in outbox st2 = outbox st @
            (if last_error_message st = Some m1 then [] else [(m1, snd ev1)]) @
            (if m2 = m1 then [] else [(m2, snd ev2)]) \<and>
          last_error_message st2 = Some m2)) \<and>
   (try_suite rt ev st = Inr s \<longrightarrow>
      last_error_message (iteration rt ev st) = last_error_message st) \<and>
   (last_error_message (iteration rt ev st) \<noteq> last_error_message st \<longrightarrow>
      (\<exists>e s'. try_suite rt ev st = Inl (e, s') \<and>
         last_error_message (iteration rt ev st) = Some (msg_failure @ error_text rt e @ ''.'')))"
proof -
  have pair: "outbox (iteration rt ev2 (iteration rt ev1 st)) = outbox st @
            (if last_error_message st = Some (msg_failure @ error_text rt e1 @ ''.'') then []
             else [(msg_failure @ error_text rt e1 @ ''.'', snd ev1)]) @
            (if msg_failure @ error_text rt e2 @ ''.'' = msg_failure @ error_text rt e1 @ ''.''
             then [] else [(msg_failure @ error_text rt e2 @ ''.'', snd ev2)]) \<and>
          last_error_message (iteration rt ev2 (iteration rt ev1 st))
            = Some (msg_failure @ error_text rt e2 @ ''.'')"
    if f1: "try_suite rt ev1 st = Inl (e1, s1)"
      and f2: "try_suite rt ev2 (iteration rt ev1 st) = Inl (e2, s2)"
  proof -
    note first = iteration_failure_outbox [OF f1]
    note second = iteration_failure_outbox [OF f2]
    from second(1) first show ?thesis
      by (simp add: second(2) eq_commute)
  qed
  have ok: "last_error_message (iteration rt ev st) = last_error_message st"
    if "try_suite rt ev st = Inr s" for s
  proof -
    obtain outcome delivered where ev: "ev = (outcome, delivered)"
      by (cases ev)
    from that ev have "try_suite rt (outcome, delivered) st = Inr s" by simp
    from try_suite_success [OF this] have "last_error_message s = last_error_message st"
      by blast
    with that show ?thesis by (simp add: iteration_success)
  qed
  have change: "\<exists>e s'. try_suite rt ev st = Inl (e, s') \<and>
         last_error_message (iteration rt ev st) = Some (msg_failure @ error_text rt e @ ''.'')"
    if ne: "last_error_message (iteration rt ev st) \<noteq> last_error_message st"
  proof (cases "try_suite rt ev st")
    case (Inr finished)
    with ne ok show ?thesis by blast
  next
    case (Inl failure)
    then obtain e s' where f: "try_suite rt ev st = Inl (e, s')"
      by (cases failure) simp
    from iteration_failure_outbox(2) [OF f] f show ?thesis by blast
  qed
  from pair ok change show ?thesis
    unfolding Let_def by blast
qed

theorem consecutive_failures_notify_on_change_witness:
  "outbox (iteration sample_interp sample_outage
             (iteration sample_interp sample_outage sample_started))
     = [(TEXT, True), (sample_outage_text, True)] \<and>
   outbox (iteration sample_interp sample_no_route
             (iteration sample_interp sample_outage sample_started))
     = [(TEXT, True), (sample_outage_text, True),
        (msg_failure @ (msg_request_error @ ENDPOINT @ '' c params={'from_date': 1000}.'') @ ''.'',
         True)] \<and>
   last_error_message (iteration sample_interp sample_no_news sample_recovered)
     = Some sample_outage_text"
proof -
  let ?unavailable = "APIRequestError (msg_endpoint @ ENDPOINT @ msg_unavailable)"
  let ?no_route = "APIRequestError
      (msg_request_error @ ENDPOINT @ '' c params={'from_date': 1000}.'')"
  let ?st1 = "iteration sample_interp sample_outage sample_started"
  have f1: "try_suite sample_interp sample_outage sample_started = Inl (?unavailable, sample_started)"
    by (simp add: try_suite_def sample_outage_def get_api_answer_def)
  have st1: "?st1 = sample_started
      \<lparr>outbox := [(TEXT, True), (sample_outage_text, True)],
       last_error_message := Some sample_outage_text\<rparr>"
    using iteration_failure [OF f1]
    by (simp add: sample_started_def sample_outage_text_def sample_outage_def)
  have f2: "try_suite sample_interp sample_outage ?st1 = Inl (?unavailable, ?st1)"
    by (simp add: try_suite_def sample_outage_def get_api_answer_def)
  have f3: "try_suite sample_interp sample_no_route ?st1 = Inl (?no_route, ?st1)"
    unfolding st1
    by (simp add: try_suite_def sample_no_route_def get_api_answer_def sample_started_def
        py_str_def sample_interp_def dec_nat.simps)
  have differ: "msg_request_error @ ENDPOINT @ '' c params={'from_date': 1000}.''
      \<noteq> msg_endpoint @ ENDPOINT @ msg_unavailable"
    by (simp add: msg_request_error_def msg_endpoint_def)
  have ok: "try_suite sample_interp sample_no_news sample_recovered
      = Inr (sample_recovered\<lparr>timestamp := PInt 2000\<rparr>)"
    by (simp add: try_suite_def sample_no_news_def get_api_answer_def has_key_def dict_get_def)
  note same = consecutive_failures_notify_on_change
      [of sample_interp sample_outage sample_started ?unavailable sample_started
          sample_outage ?unavailable ?st1 sample_no_news sample_started]
  note other = consecutive_failures_notify_on_change
      [of sample_interp sample_outage sample_started ?unavailable sample_started
          sample_no_route ?no_route ?st1 sample_no_news sample_started]
  note idle = consecutive_failures_notify_on_change
      [of sample_interp sample_outage sample_recovered ?unavailable sample_recovered
          sample_outage ?unavailable sample_recovered
          sample_no_news "sample_recovered\<lparr>timestamp := PInt 2000\<rparr>"]
  from same f1 f2
  have a: "outbox (iteration sample_interp sample_outage ?st1)
      = [(TEXT, True), (sample_outage_text, True)]"
    by (simp add: Let_def sample_started_def sample_outage_text_def sample_outage_def)
  from other f1 f3 differ
  have b: "outbox (iteration sample_interp sample_no_route ?st1)
      = [(TEXT, True), (sample_outage_text, True),
         (msg_failure @ (msg_request_error @ ENDPOINT @ '' c params={'from_date': 1000}.'') @ ''.'',
          True)]"
    by (simp add: Let_def sample_started_def sample_outage_text_def sample_outage_def
        sample_no_route_def)
  from idle ok
  have c: "last_error_message (iteration sample_interp sample_no_news sample_recovered)
      = last_error_message sample_recovered"
    by blast
  from a b c show ?thesis
    by (simp add: sample_recovered_def)
qed

text \<open>
  The claim fails for a pair of failing iterations whose text is already the last error
  message. In the run whose iterations are an outage, a successful poll and two more
  outages, the third and the fourth iteration both fail with the text of the first, and
  neither sends a notification: the successful poll has not cleared the last error message.
\<close>

theorem repeated_outage_sends_nothing:
  "main sample_interp sample_config 1000 True [sample_outage, sample_no_news]
     = Inr sample_recovered \<and>
   try_suite sample_interp sample_outage sample_recovered
     = Inl (APIRequestError (msg_endpoint @ ENDPOINT @ msg_unavailable), sample_recovered) \<and>
   iteration sample_interp sample_outage sample_recovered = sample_recovered \<and>
   outbox (iteration sample_interp sample_outage
             (iteration sample_interp sample_outage sample_recovered))
     = outbox sample_recovered \<and>
   main sample_interp sample_config 1000 True
       [sample_outage, sample_no_news, sample_outage, sample_outage]
     = Inr sample_recovered"
proof -
  have tokens_ok: "check_tokens sample_config = Inr ()"
    by (simp add: check_tokens_def sample_config_def tokens_def global_value_def py_not_def)
  have f: "try_suite sample_interp sample_outage st
      = Inl (APIRequestError (msg_endpoint @ ENDPOINT @ msg_unavailable), st)" for st
    by (simp add: try_suite_def sample_outage_def get_api_answer_def)
  have first: "iteration sample_interp sample_outage
      \<lparr>timestamp = PInt 1000, last_error_message = None, outbox = [(TEXT, True)]\<rparr>
      = \<lparr>timestamp = PInt 1000, last_error_message = Some sample_outage_text,
         outbox = [(TEXT, True), (sample_outage_text, True)]\<rparr>"
    using iteration_failure [OF f]
    by (simp add: sample_outage_text_def sample_outage_def)
  have second: "iteration sample_interp sample_no_news
      \<lparr>timestamp = PInt 1000, last_error_message = Some sample_outage_text,
         outbox = [(TEXT, True), (sample_outage_text, True)]\<rparr> = sample_recovered"
    by (simp add: iteration_def try_suite_def sample_no_news_def get_api_answer_def has_key_def
        dict_get_def sample_recovered_def)
  have again: "iteration sample_interp sample_outage sample_recovered = sample_recovered"
    using iteration_failure [OF f, of sample_recovered]
    by (simp add: sample_recovered_def sample_outage_text_def)
  from tokens_ok first second again f show ?thesis
    by (simp add: main_def send_message_def)
qed

text \<open>
  Claim C10. When an iteration fails with a text that is not the last error message, the
  loop calls \<^verbatim>\<open>send_message\<close> once and then stores the text as the last error message,
  whether the call of the bot returned or raised; a later failing iteration with the same
  text then changes nothing, so it sends no notification even when the first one was not
  delivered.
\<close>

theorem undelivered_error_still_recorded:
  "try_suite rt (outcome, delivered) st = Inl (err, s1) \<and>
   last_error_message st \<noteq> Some (msg_failure @ error_text rt err @ ''.'') \<longrightarrow>
     (let message = msg_failure @ error_text rt err @ ''.'';
          st1 = iteration rt (outcome, delivered) st
      in outbox st1 = outbox st @ [(message, delivered)] \<and>
         last_error_message st1 = Some message \<and>
         (\<forall>ev2 err2 s2.
            try_suite rt ev2 st1 = Inl (err2, s2) \<and>
            msg_failure @ error_text rt err2 @ ''.'' = message \<longrightarrow>
              iteration rt ev2 st1 = st1))"
proof -
  have "outbox (iteration rt (outcome, delivered) st)
          = outbox st @ [(msg_failure @ error_text rt err @ ''.'', delivered)] \<and>
        last_error_message (iteration rt (outcome, delivered) st)
          = Some (msg_failure @ error_text rt err @ ''.'') \<and>
        (\<forall>ev2 err2 s2.
            try_suite rt ev2 (iteration rt (outcome, delivered) st) = Inl (err2, s2) \<and>
            msg_failure @ error_text rt err2 @ ''.'' = msg_failure @ error_text rt err @ ''.'' \<longrightarrow>
              iteration rt ev2 (iteration rt (outcome, delivered) st)
                = iteration rt (outcome, delivered) st)"
    if f: "try_suite rt (outcome, delivered) st = Inl (err, s1)"
      and fresh: "last_error_message st \<noteq> Some (msg_failure @ error_text rt err @ ''.'')"
  proof -
    let ?st1 = "iteration rt (outcome, delivered) st"
    from iteration_failure [OF f] fresh
    have box: "outbox ?st1 = outbox st @ [(msg_failure @ error_text rt err @ ''.'', delivered)]"
      and last: "last_error_message ?st1 = Some (msg_failure @ error_text rt err @ ''.'')"
      by simp_all
    have "iteration rt ev2 ?st1 = ?st1"
      if f2: "try_suite rt ev2 ?st1 = Inl (err2, s2)"
        and same: "msg_failure @ error_text rt err2 @ ''.'' = msg_failure @ error_text rt err @ ''.''"
      for ev2 err2 s2
      using iteration_failure [OF f2] last same by simp
    with box last show ?thesis by blast
  qed
  then show ?thesis
    unfolding Let_def by blast
qed

theorem undelivered_error_still_recorded_witness:
  "iteration sample_interp (Returned (Response 503 JSONDecodeError), False) sample_started
     = \<lparr>timestamp = PInt 1000, last_error_message = Some sample_outage_text,
        outbox = [(TEXT, True), (sample_outage_text, False)]\<rparr> \<and>
   iteration sample_interp sample_outage
       (iteration sample_interp (Returned (Response 503 JSONDecodeError), False) sample_started)
     = \<lparr>timestamp = PInt 1000, last_error_message = Some sample_outage_text,
        outbox = [(TEXT, True), (sample_outage_text, False)]\<rparr>"
proof -
  let ?unavailable = "APIRequestError (msg_endpoint @ ENDPOINT @ msg_unavailable)"
  let ?st1 = "iteration sample_interp (Returned (Response 503 JSONDecodeError), False) sample_started"
  have f1: "try_suite sample_interp (Returned (Response 503 JSONDecodeError), False) sample_started
      = Inl (?unavailable, sample_started)"
    by (simp add: try_suite_def get_api_answer_def)
  have f2: "try_suite sample_interp sample_outage ?st1 = Inl (?unavailable, ?st1)"
    by (simp add: try_suite_def sample_outage_def get_api_answer_def)
  have fresh: "last_error_message sample_started \<noteq> Some (msg_failure @ error_text sample_interp ?unavailable @ ''.'')"
    by (simp add: sample_started_def)
  note recorded = undelivered_error_still_recorded
      [of sample_interp "Returned (Response 503 JSONDecodeError)" False sample_started ?unavailable
          sample_started]
  from recorded f1 fresh
  have later: "\<forall>ev2 err2 s2.
      try_suite sample_interp ev2 ?st1 = Inl (err2, s2) \<and>
      msg_failure @ error_text sample_interp err2 @ ''.''
        = msg_failure @ error_text sample_interp ?unavailable @ ''.'' \<longrightarrow>
      iteration sample_interp ev2 ?st1 = ?st1"
    unfolding Let_def by blast
  with f2 have again: "iteration sample_interp sample_outage ?st1 = ?st1"
    by blast
  have st1: "?st1 = \<lparr>timestamp = PInt 1000, last_error_message = Some sample_outage_text,
        outbox = [(TEXT, True), (sample_outage_text, False)]\<rparr>"
    using iteration_failure [OF f1]
    by (simp add: sample_started_def sample_outage_text_def)
  from again st1 show ?thesis
    by simp
qed

end
